theory Spec2Isabelle
  imports Complex_Main "HOL-Library.Sublist"
begin

section \<open>JavaScript values\<close>

text \<open>
  The modules \<^verbatim>\<open>utils/googleSheets.ts\<close> (with its earlier, label-indexed version),
  \<^verbatim>\<open>utils/scraper.ts\<close> and the event page work on untyped JavaScript values
  (\<^verbatim>\<open>any\<close>): whatever \<^verbatim>\<open>JSON.parse\<close> returned, plus the \<^verbatim>\<open>Date\<close> objects and
  \<^verbatim>\<open>undefined\<close> the code itself produces. A \<^verbatim>\<open>throw\<close> is the left injection of a sum.

  Strings are sequences of 8-bit code units; the only non-ASCII characters the code
  mentions are those of the property name of the start time, which fit.
  Numbers carry their mathematical value: the model is exact wherever the IEEE double
  is, in particular on every integer below \<open>2^53\<close> in magnitude, which covers each
  day, month, year, hour and minute the theorems below speak about. Negative zero is
  identified with zero (no operation used here tells them apart).
\<close>

datatype error = NetworkError | SyntaxError | TypeError | RangeError

datatype jsnum = NaN | Fin rat | PosInf | NegInf

datatype jsval =
    Undefined
  | Null
  | Bool bool
  | Num jsnum
  | Str string
  | Arr "jsval list"
  | Obj "(string \<times> jsval) list"
  | DateV "int option"  \<comment> \<open>a Date object: its time value in ms, \<open>None\<close> for an invalid Date\<close>

type_synonym js_object = "(string \<times> jsval) list"

text \<open>\<^verbatim>\<open>ToBoolean\<close>: the falsy values are undefined, null, false, 0, NaN and the empty string.\<close>

fun truthy :: "jsval \<Rightarrow> bool" where
  "truthy Undefined = False"
| "truthy Null = False"
| "truthy (Bool b) = b"
| "truthy (Num n) = (n \<noteq> NaN \<and> n \<noteq> Fin 0)"
| "truthy (Str s) = (s \<noteq> [])"
| "truthy (Arr xs) = True"
| "truthy (Obj kvs) = True"
| "truthy (DateV t) = True"

text \<open>\<^verbatim>\<open>a || b\<close>\<close>

definition js_or :: "jsval \<Rightarrow> jsval \<Rightarrow> jsval" where
  "js_or a b = (if truthy a then a else b)"

text \<open>
  \<^verbatim>\<open>a === b\<close>. Two objects (arrays, records, Dates) are strictly equal only when they are
  the same object; every comparison in these modules has a freshly scraped string on one
  side, which is identical to no object, so object operands compare unequal.
\<close>

fun strict_eq :: "jsval \<Rightarrow> jsval \<Rightarrow> bool" where
  "strict_eq Undefined Undefined = True"
| "strict_eq Null Null = True"
| "strict_eq (Bool a) (Bool b) = (a = b)"
| "strict_eq (Num a) (Num b) = (a \<noteq> NaN \<and> a = b)"
| "strict_eq (Str a) (Str b) = (a = b)"
| "strict_eq _ _ = False"

text \<open>Reading a property of a record object: \<^verbatim>\<open>undefined\<close> when the object has none.\<close>

definition obj_get :: "js_object \<Rightarrow> string \<Rightarrow> jsval" where
  "obj_get obj k = (case map_of obj k of None \<Rightarrow> Undefined | Some v \<Rightarrow> v)"

text \<open>Errors as values: sequencing stops at the first throw.\<close>

definition bind_err :: "error + 'a \<Rightarrow> ('a \<Rightarrow> error + 'b) \<Rightarrow> error + 'b" where
  "bind_err m f = (case m of Inl e \<Rightarrow> Inl e | Inr x \<Rightarrow> f x)"

fun map_err :: "('a \<Rightarrow> error + 'b) \<Rightarrow> 'a list \<Rightarrow> error + 'b list" where
  "map_err f [] = Inr []"
| "map_err f (x # xs) =
     (case f x of
        Inl e \<Rightarrow> Inl e
      | Inr y \<Rightarrow> (case map_err f xs of Inl e \<Rightarrow> Inl e | Inr ys \<Rightarrow> Inr (y # ys)))"

text \<open>
  \<^verbatim>\<open>x.k\<close>, \<^verbatim>\<open>x?.k\<close> and \<^verbatim>\<open>x[i]\<close> on any value, for the property names these modules
  read (\<^verbatim>\<open>table\<close>, \<^verbatim>\<open>rows\<close>, \<^verbatim>\<open>cols\<close>, \<^verbatim>\<open>label\<close>, \<^verbatim>\<open>c\<close>, \<^verbatim>\<open>v\<close>, \<^verbatim>\<open>f\<close>), none of
  which a built-in prototype defines: reading a property of \<^verbatim>\<open>undefined\<close> or \<^verbatim>\<open>null\<close>
  throws a TypeError, a primitive or an array has no such property, and an index reads
  an element of an array, a character of a string or the property of that name.
  \<open>decimal_digit\<close> and \<open>show_nat\<close> print a natural number in decimal.
\<close>

definition decimal_digit :: "nat \<Rightarrow> char" where
  "decimal_digit n = ''0123456789'' ! n"

fun show_nat :: "nat \<Rightarrow> string" where
  "show_nat n = (if n < 10 then [decimal_digit n] else show_nat (n div 10) @ [decimal_digit (n mod 10)])"

declare show_nat.simps [simp del]

definition get_prop :: "jsval \<Rightarrow> string \<Rightarrow> error + jsval" where
  "get_prop x k =
     (case x of
        Undefined \<Rightarrow> Inl TypeError
      | Null \<Rightarrow> Inl TypeError
      | Obj kvs \<Rightarrow> Inr (obj_get kvs k)
      | _ \<Rightarrow> Inr Undefined)"

definition get_opt :: "jsval \<Rightarrow> string \<Rightarrow> jsval" where
  "get_opt x k = (case x of Obj kvs \<Rightarrow> obj_get kvs k | _ \<Rightarrow> Undefined)"

definition get_index :: "jsval \<Rightarrow> nat \<Rightarrow> error + jsval" where
  "get_index x i =
     (case x of
        Undefined \<Rightarrow> Inl TypeError
      | Null \<Rightarrow> Inl TypeError
      | Arr xs \<Rightarrow> Inr (if i < length xs then xs ! i else Undefined)
      | Str s \<Rightarrow> Inr (if i < length s then Str [s ! i] else Undefined)
      | Obj kvs \<Rightarrow> Inr (obj_get kvs (show_nat i))
      | _ \<Rightarrow> Inr Undefined)"

section \<open>Strings\<close>

text \<open>\<^verbatim>\<open>xs.join(sep)\<close> on an array of strings.\<close>

fun js_join :: "string \<Rightarrow> string list \<Rightarrow> string" where
  "js_join sep [] = []"
| "js_join sep [x] = x"
| "js_join sep (x # y # ys) = x @ sep @ js_join sep (y # ys)"

text \<open>\<^verbatim>\<open>s.split(sep)\<close> for a separator of one character. The result is never the empty
  array, so the last case below is never taken.\<close>

fun js_split :: "char \<Rightarrow> string \<Rightarrow> string list" where
  "js_split sep [] = [[]]"
| "js_split sep (c # cs) =
     (if c = sep then [] # js_split sep cs
      else (case js_split sep cs of
              p # ps \<Rightarrow> (c # p) # ps
            | [] \<Rightarrow> [[c]]))"

text \<open>White space, as \<^verbatim>\<open>trim\<close>, \<^verbatim>\<open>Number\<close> and \<^verbatim>\<open>\s\<close> read it (the code units below 256).\<close>

definition is_space :: "char \<Rightarrow> bool" where
  "is_space c = (c \<in> {CHR 0x09, CHR 0x0A, CHR 0x0B, CHR 0x0C, CHR 0x0D, CHR 0x20, CHR 0xA0})"

definition js_trim :: "string \<Rightarrow> string" where
  "js_trim s = rev (dropWhile is_space (rev (dropWhile is_space s)))"

definition padStart :: "nat \<Rightarrow> char \<Rightarrow> string \<Rightarrow> string" where
  "padStart n c s = replicate (n - length s) c @ s"

definition is_digit :: "char \<Rightarrow> bool" where
  "is_digit c = (c \<in> set ''0123456789'')"

definition digit_val :: "char \<Rightarrow> nat" where
  "digit_val c = of_char c - 48"

definition digits_val :: "string \<Rightarrow> nat" where
  "digits_val ds = foldl (\<lambda>a c. 10 * a + digit_val c) 0 ds"

section \<open>Numbers\<close>

text \<open>Digits of the radix literals \<^verbatim>\<open>0x\<close>, \<^verbatim>\<open>0o\<close>, \<^verbatim>\<open>0b\<close>.\<close>

definition radix_digit :: "char \<Rightarrow> nat" where
  "radix_digit c =
     (if is_digit c then digit_val c
      else if c \<in> set ''abcdef'' then of_char c - 87
      else if c \<in> set ''ABCDEF'' then of_char c - 55
      else 16)"

definition radix_val :: "nat \<Rightarrow> string \<Rightarrow> nat option" where
  "radix_val b ds =
     (if ds \<noteq> [] \<and> list_all (\<lambda>c. radix_digit c < b) ds
      then Some (foldl (\<lambda>a c. b * a + radix_digit c) 0 ds) else None)"

definition radix_literal :: "string \<Rightarrow> nat option" where
  "radix_literal s =
     (case s of
        z # p # ds \<Rightarrow>
          if z \<noteq> CHR ''0'' then None
          else if p = CHR ''x'' \<or> p = CHR ''X'' then radix_val 16 ds
          else if p = CHR ''o'' \<or> p = CHR ''O'' then radix_val 8 ds
          else if p = CHR ''b'' \<or> p = CHR ''B'' then radix_val 2 ds
          else None
      | _ \<Rightarrow> None)"

definition all_digits :: "string \<Rightarrow> bool" where
  "all_digits ds = (ds \<noteq> [] \<and> list_all is_digit ds)"

definition exponent_part :: "string \<Rightarrow> int option" where
  "exponent_part s =
     (case s of
        [] \<Rightarrow> Some 0
      | e # r \<Rightarrow>
          if e \<noteq> CHR ''e'' \<and> e \<noteq> CHR ''E'' then None
          else (case r of
                  [] \<Rightarrow> None
                | sg # ds \<Rightarrow>
                    if sg = CHR ''+'' then (if all_digits ds then Some (int (digits_val ds)) else None)
                    else if sg = CHR ''-'' then (if all_digits ds then Some (- int (digits_val ds)) else None)
                    else if all_digits r then Some (int (digits_val r)) else None))"

text \<open>
  The decimal literals of \<^verbatim>\<open>Number(s)\<close>: digits with an optional fraction and exponent
  (\<^verbatim>\<open>12\<close>, \<^verbatim>\<open>1.5\<close>, \<^verbatim>\<open>5.\<close>, \<^verbatim>\<open>.5\<close>, \<^verbatim>\<open>1e3\<close>), with their mathematical value.
\<close>

definition unsigned_decimal :: "string \<Rightarrow> rat option" where
  "unsigned_decimal s =
     (let ip = takeWhile is_digit s;
          r1 = dropWhile is_digit s;
          fp = (case r1 of c # r \<Rightarrow> if c = CHR ''.'' then takeWhile is_digit r else [] | [] \<Rightarrow> []);
          r2 = (case r1 of c # r \<Rightarrow> if c = CHR ''.'' then dropWhile is_digit r else r1 | [] \<Rightarrow> [])
      in if ip = [] \<and> fp = [] then None
         else (case exponent_part r2 of
                 None \<Rightarrow> None
               | Some e \<Rightarrow>
                   Some ((of_nat (digits_val ip) + of_nat (digits_val fp) / 10 ^ length fp) *
                         (if 0 \<le> e then 10 ^ nat e else 1 / 10 ^ nat (- e)))))"

definition unsigned_literal :: "string \<Rightarrow> jsnum" where
  "unsigned_literal s =
     (if s = ''Infinity'' then PosInf
      else (case unsigned_decimal s of None \<Rightarrow> NaN | Some r \<Rightarrow> Fin r))"

fun js_neg :: "jsnum \<Rightarrow> jsnum" where
  "js_neg NaN = NaN"
| "js_neg (Fin r) = Fin (- r)"
| "js_neg PosInf = NegInf"
| "js_neg NegInf = PosInf"

text \<open>\<^verbatim>\<open>Number(s)\<close> on a string.\<close>

definition StringToNumber :: "string \<Rightarrow> jsnum" where
  "StringToNumber s =
     (let t = js_trim s in
      if t = [] then Fin 0
      else (case radix_literal t of
              Some n \<Rightarrow> Fin (of_nat n)
            | None \<Rightarrow>
               (case t of
                  c # u \<Rightarrow>
                    if c = CHR ''+'' then unsigned_literal u
                    else if c = CHR ''-'' then js_neg (unsigned_literal u)
                    else unsigned_literal t
                | [] \<Rightarrow> NaN)))"

text \<open>\<^verbatim>\<open>const [a, b, c] = parts.map(Number)\<close>: element \<open>i\<close>, or \<^verbatim>\<open>undefined\<close>,
  which each use below converts to NaN.\<close>

definition num_at :: "string list \<Rightarrow> nat \<Rightarrow> jsnum" where
  "num_at parts i = (if i < length parts then StringToNumber (parts ! i) else NaN)"

fun js_sub1 :: "jsnum \<Rightarrow> jsnum" where
  "js_sub1 NaN = NaN"
| "js_sub1 (Fin r) = Fin (r - 1)"
| "js_sub1 PosInf = PosInf"
| "js_sub1 NegInf = NegInf"

text \<open>\<^verbatim>\<open>parseInt(ds)\<close> on a run of decimal digits that a regular expression captured.\<close>

definition parseInt_digits :: "string \<Rightarrow> jsnum" where
  "parseInt_digits ds = Fin (of_nat (digits_val ds))"

text \<open>\<^verbatim>\<open>n.toString()\<close>: integers below \<open>10^21\<close> print their decimal digits; the
  digits of any other finite number are the runtime's (\<open>fmt\<close>).\<close>

definition num_toString :: "(rat \<Rightarrow> string) \<Rightarrow> jsnum \<Rightarrow> string" where
  "num_toString fmt n =
     (case n of
        NaN \<Rightarrow> ''NaN''
      | PosInf \<Rightarrow> ''Infinity''
      | NegInf \<Rightarrow> ''-Infinity''
      | Fin r \<Rightarrow>
          if r = of_int \<lfloor>r\<rfloor> \<and> \<bar>r\<bar> < 10 ^ 21
          then (if r < 0 then ''-'' else []) @ show_nat (nat \<bar>\<lfloor>r\<rfloor>\<bar>)
          else fmt r)"

section \<open>Dates\<close>

text \<open>
  \<^verbatim>\<open>Date.UTC\<close> as ECMAScript defines it: the arguments truncated to integers, a year
  from 0 to 99 counted from 1900, months beyond a year carried into the year, the day
  number of the date, and the result clipped to the range of time values. A NaN or
  infinite argument gives NaN (\<open>None\<close>).
\<close>

definition msPerDay :: int where "msPerDay = 86400000"

definition DayFromYear :: "int \<Rightarrow> int" where
  "DayFromYear y = 365 * (y - 1970) + (y - 1969) div 4 - (y - 1901) div 100 + (y - 1601) div 400"

definition TimeFromYear :: "int \<Rightarrow> int" where
  "TimeFromYear y = msPerDay * DayFromYear y"

definition InLeapYear :: "int \<Rightarrow> bool" where
  "InLeapYear y = (y mod 4 = 0 \<and> (y mod 100 \<noteq> 0 \<or> y mod 400 = 0))"

definition DaysInYear :: "int \<Rightarrow> int" where
  "DaysInYear y = (if InLeapYear y then 366 else 365)"

text \<open>The day of the year on which month \<open>m\<close> (0 to 11) starts; 12 is the year's end.\<close>

definition MonthStart :: "int \<Rightarrow> bool \<Rightarrow> int" where
  "MonthStart m leap =
     (if m \<le> 0 then 0
      else if m = 1 then 31
      else [59, 90, 120, 151, 181, 212, 243, 273, 304, 334, 365] ! nat (min m 12 - 2) +
           (if leap then 1 else 0))"

definition trunc :: "rat \<Rightarrow> int" where
  "trunc r = (if 0 \<le> r then \<lfloor>r\<rfloor> else - \<lfloor>- r\<rfloor>)"

fun ToInteger :: "jsnum \<Rightarrow> int option" where
  "ToInteger (Fin r) = Some (trunc r)"
| "ToInteger _ = None"

definition MakeFullYear :: "int \<Rightarrow> int" where
  "MakeFullYear y = (if 0 \<le> y \<and> y \<le> 99 then 1900 + y else y)"

definition MakeDay :: "int \<Rightarrow> int \<Rightarrow> int \<Rightarrow> int" where
  "MakeDay y m dt =
     (let ym = y + m div 12; mn = m mod 12
      in DayFromYear ym + MonthStart mn (InLeapYear ym) + dt - 1)"

definition MakeTime :: "int \<Rightarrow> int \<Rightarrow> int \<Rightarrow> int \<Rightarrow> int" where
  "MakeTime h m s milli = h * 3600000 + m * 60000 + s * 1000 + milli"

definition MakeDate :: "int \<Rightarrow> int \<Rightarrow> int" where
  "MakeDate day time = day * msPerDay + time"

definition TimeClip :: "int \<Rightarrow> int option" where
  "TimeClip t = (if \<bar>t\<bar> > 8640000000000000 then None else Some t)"

definition arg_or :: "jsnum list \<Rightarrow> nat \<Rightarrow> jsnum \<Rightarrow> jsnum" where
  "arg_or args i d = (if i < length args then args ! i else d)"

definition Date_UTC :: "jsnum list \<Rightarrow> int option" where
  "Date_UTC args =
     (case (ToInteger (arg_or args 0 NaN), ToInteger (arg_or args 1 (Fin 0)),
            ToInteger (arg_or args 2 (Fin 1)), ToInteger (arg_or args 3 (Fin 0)),
            ToInteger (arg_or args 4 (Fin 0)), ToInteger (arg_or args 5 (Fin 0))) of
        (Some y, Some m, Some dt, Some h, Some mi, Some s) \<Rightarrow>
          TimeClip (MakeDate (MakeDay (MakeFullYear y) m dt) (MakeTime h mi s 0))
      | _ \<Rightarrow> None)"

section \<open>The runtime\<close>

text \<open>
  What a call reads from outside the module: the network, the clock, and the built-ins of
  the JavaScript runtime and of the libraries that are not modelled here.
\<close>

text \<open>
  What cheerio reads off one element matched by \<^verbatim>\<open>.evento\<close>: the \<^verbatim>\<open>text()\<close> of its title,
  date and description sub-elements and the \<^verbatim>\<open>src\<close> attribute of its image, if any.
\<close>

record EventoElement =
  titulo_text :: string
  data_text :: string
  descricao_text :: string
  imagem_src :: "string option"

record world =
  fetch_text :: "string \<Rightarrow> error + string"  \<comment> \<open>\<^verbatim>\<open>fetch(url)\<close> then \<^verbatim>\<open>response.text()\<close>\<close>
  JSON_parse :: "string \<Rightarrow> jsval option"  \<comment> \<open>\<open>None\<close>: \<^verbatim>\<open>JSON.parse\<close> throws a SyntaxError\<close>
  Date_now :: nat  \<comment> \<open>\<^verbatim>\<open>Date.now()\<close> when the cache is stamped\<close>
  Date_parse :: "string \<Rightarrow> int option"  \<comment> \<open>the time value of \<^verbatim>\<open>new Date(s)\<close>, \<open>None\<close> for NaN\<close>
  Date_current :: int  \<comment> \<open>the time value of \<^verbatim>\<open>new Date()\<close>\<close>
  setHours :: "int \<Rightarrow> jsnum \<Rightarrow> int option"  \<comment> \<open>local-time setters, on a valid Date\<close>
  setMinutes :: "int \<Rightarrow> jsnum \<Rightarrow> int option"
  setSeconds :: "int \<Rightarrow> jsnum \<Rightarrow> int option"
  Date_toISOString :: "int \<Rightarrow> string"
  fraction_digits :: "rat \<Rightarrow> string"  \<comment> \<open>\<^verbatim>\<open>toString\<close> of a number that is no integer below \<open>10^21\<close>\<close>
  label_toString :: "jsval \<Rightarrow> error + string"  \<comment> \<open>\<^verbatim>\<open>toString()\<close> of a column label that is no string\<close>
  toLowerCase :: "string \<Rightarrow> string"
  axios_get :: "string \<Rightarrow> error + string"  \<comment> \<open>\<^verbatim>\<open>axios.get(url)\<close>, its \<^verbatim>\<open>data\<close>\<close>
  cheerio_eventos :: "string \<Rightarrow> EventoElement list"  \<comment> \<open>\<^verbatim>\<open>$('.evento')\<close> on the loaded page\<close>

section \<open>The Sheet Client: \<^verbatim>\<open>getGoogleSheetData\<close> (utils/googleSheets.ts)\<close>

record CacheEntry =
  data :: "js_object list"
  timestamp :: nat
  version :: nat

record SheetState =
  cache :: "string \<rightharpoonup> CacheEntry"
  currentVersion :: nat
  lastModified :: nat

text \<open>\<^verbatim>\<open>currentVersion + 1\<close> on a double: exact below \<open>2^53\<close>, where the sum rounds back.\<close>

definition js_add1 :: "nat \<Rightarrow> nat" where
  "js_add1 n = (if n < 2 ^ 53 then n + 1 else n)"

definition cacheKey :: "string \<Rightarrow> string \<Rightarrow> string" where
  "cacheKey sheetId gid = sheetId @ ''-'' @ gid"

definition sheetUrl :: "string \<Rightarrow> string \<Rightarrow> string" where
  "sheetUrl sheetId gid =
     ''https://docs.google.com/spreadsheets/d/'' @ sheetId @ ''/gviz/tq?tqx=out:json&gid='' @ gid"

text \<open>\<^verbatim>\<open>text.substring(47).slice(0, -2)\<close>\<close>

definition stripFraming :: "string \<Rightarrow> string" where
  "stripFraming text = (let t = drop 47 text in take (length t - 2) t)"

text \<open>\<^verbatim>\<open>s.replace(/\s+/g, '_')\<close>; the flag says that the previous character was white space.\<close>

fun replace_spaces :: "bool \<Rightarrow> string \<Rightarrow> string" where
  "replace_spaces in_run [] = []"
| "replace_spaces in_run (c # cs) =
     (if is_space c then (if in_run then replace_spaces True cs else CHR ''_'' # replace_spaces True cs)
      else c # replace_spaces False cs)"

text \<open>The callback of \<^verbatim>\<open>json.table.cols.map\<close>.\<close>

definition headerOf :: "world \<Rightarrow> jsval \<Rightarrow> error + string" where
  "headerOf w col =
     bind_err (get_prop col ''label'') (\<lambda>label.
       (case label of
          Undefined \<Rightarrow> Inr []
        | Null \<Rightarrow> Inr []
        | Str s \<Rightarrow> Inr (replace_spaces False (toLowerCase w s))
        | _ \<Rightarrow> bind_err (label_toString w label) (\<lambda>s.
                 Inr (replace_spaces False (toLowerCase w s)))))"

text \<open>\<^verbatim>\<open>xs.map(f)\<close> on a value that \<^verbatim>\<open>JSON.parse\<close> returned: only an array has a \<^verbatim>\<open>map\<close>
  that can be called.\<close>

definition array_map :: "(jsval \<Rightarrow> error + 'b) \<Rightarrow> jsval \<Rightarrow> error + 'b list" where
  "array_map f xs = (case xs of Arr ys \<Rightarrow> map_err f ys | _ \<Rightarrow> Inl TypeError)"

text \<open>The date and the time of a row, from the values of its cells 1 and 2.\<close>

definition parseDate :: "jsval \<Rightarrow> error + jsval" where
  "parseDate dateStr =
     (if truthy dateStr then
        (case dateStr of
           Str s \<Rightarrow>
             (let parts = js_split (CHR ''/'') s;
                  day = num_at parts 0; month = num_at parts 1; year = num_at parts 2
              in if day \<noteq> NaN \<and> month \<noteq> NaN \<and> year \<noteq> NaN
                 then Inr (DateV (Date_UTC [year, js_sub1 month, day]))
                 else Inr Null)
         | _ \<Rightarrow> Inl TypeError)
      else Inr Null)"

definition parseTime :: "world \<Rightarrow> jsval \<Rightarrow> error + jsval" where
  "parseTime w timeStr =
     (if truthy timeStr then
        (case timeStr of
           Str s \<Rightarrow>
             (let parts = js_split (CHR '':'') s;
                  hours = num_at parts 0; minutes = num_at parts 1
              in if hours \<noteq> NaN \<and> minutes \<noteq> NaN
                 then Inr (Str (padStart 2 (CHR ''0'') (num_toString (fraction_digits w) hours) @ '':'' @
                               padStart 2 (CHR ''0'') (num_toString (fraction_digits w) minutes)))
                 else Inr Null)
         | _ \<Rightarrow> Inl TypeError)
      else Inr Null)"

text \<open>\<^verbatim>\<open>cells[i]?.v\<close>\<close>

definition cell_v :: "jsval \<Rightarrow> nat \<Rightarrow> error + jsval" where
  "cell_v cells i = bind_err (get_index cells i) (\<lambda>cell. Inr (get_opt cell ''v''))"

text \<open>The callback of \<^verbatim>\<open>rows.map\<close>: one record per row, position-indexed.\<close>

definition transformRow :: "world \<Rightarrow> jsval \<Rightarrow> error + js_object" where
  "transformRow w row =
     bind_err (get_prop row ''c'') (\<lambda>cells.
     bind_err (cell_v cells 0) (\<lambda>v0.
     bind_err (cell_v cells 1) (\<lambda>v1.
     bind_err (cell_v cells 2) (\<lambda>v2.
     bind_err (parseDate (js_or v1 (Str []))) (\<lambda>date.
     bind_err (parseTime w (js_or v2 (Str []))) (\<lambda>time.
     bind_err (cell_v cells 3) (\<lambda>v3.
     bind_err (cell_v cells 4) (\<lambda>v4.
     bind_err (cell_v cells 5) (\<lambda>v5.
     bind_err (cell_v cells 6) (\<lambda>v6.
       Inr [(''evento'', js_or v0 Null),
            (''date'', date),
            (''time'', time),
            (''local'', js_or v3 Null),
            (''tipo_evento'', js_or v4 Null),
            (''url'', js_or v5 Null),
            (''flyer'', js_or v6 Null)]))))))))))"

text \<open>The body of the \<^verbatim>\<open>try\<close> block up to the transformed rows: fetch, decode, transform.\<close>

definition fetchRows :: "world \<Rightarrow> string \<Rightarrow> string \<Rightarrow> error + js_object list" where
  "fetchRows w sheetId gid =
     bind_err (fetch_text w (sheetUrl sheetId gid)) (\<lambda>text.
       (case JSON_parse w (stripFraming text) of
          None \<Rightarrow> Inl SyntaxError
        | Some json \<Rightarrow>
            bind_err (get_prop json ''table'') (\<lambda>table.
            bind_err (get_prop table ''rows'') (\<lambda>rows.
            bind_err (get_prop table ''cols'') (\<lambda>cols.
            bind_err (array_map (headerOf w) cols) (\<lambda>headers.
              array_map (transformRow w) rows))))))"

text \<open>
  The whole function. The staleness flag \<^verbatim>\<open>shouldRefresh\<close> is computed and never read, so
  it has no part in the result. The \<^verbatim>\<open>catch\<close> block answers
  \<^verbatim>\<open>cache.get(cacheKey)?.data || []\<close>; cached data is an array, which is truthy.
\<close>

definition getGoogleSheetData ::
  "world \<Rightarrow> SheetState \<Rightarrow> string \<Rightarrow> string \<Rightarrow> (error + js_object list) \<times> SheetState" where
  "getGoogleSheetData w st sheetId gid =
     (case fetchRows w sheetId gid of
        Inr rows \<Rightarrow>
          (let newVersion = js_add1 (currentVersion st);
               stamp = Date_now w
           in (Inr rows,
               st\<lparr> currentVersion := newVersion,
                   lastModified := stamp,
                   cache := (cache st)(cacheKey sheetId gid \<mapsto>
                     \<lparr> data = rows, timestamp = stamp, version = newVersion \<rparr>) \<rparr>))
      | Inl e \<Rightarrow>
          (Inr (case cache st (cacheKey sheetId gid) of
                  Some entry \<Rightarrow> data entry
                | None \<Rightarrow> []),
           st))"

definition handleWebhookUpdate ::
  "world \<Rightarrow> SheetState \<Rightarrow> string \<Rightarrow> string \<Rightarrow> (error + js_object list) \<times> SheetState" where
  "handleWebhookUpdate w st sheetId gid =
     getGoogleSheetData w (st\<lparr> cache := (cache st)(cacheKey sheetId gid := None) \<rparr>) sheetId gid"

text \<open>The module as loaded: an empty cache, version 0 and the load time.\<close>

definition initialState :: "nat \<Rightarrow> SheetState" where
  "initialState t0 = \<lparr> cache = Map.empty, currentVersion = 0, lastModified = t0 \<rparr>"

inductive reachable :: "SheetState \<Rightarrow> bool" where
  loaded: "reachable (initialState t0)"
| fetched: "reachable st \<Longrightarrow> reachable (snd (getGoogleSheetData w st sheetId gid))"
| webhook: "reachable st \<Longrightarrow> reachable (snd (handleWebhookUpdate w st sheetId gid))"

section \<open>The label-indexed Row Normalizer (the earlier version of the Sheet Client)\<close>

text \<open>A maximal run of decimal digits, then the delimiter: \<^verbatim>\<open>(\d+),\<close>\<close>

definition digits_then :: "char \<Rightarrow> string \<Rightarrow> (string \<times> string) option" where
  "digits_then delim s =
     (let ds = takeWhile is_digit s; r = dropWhile is_digit s
      in (case r of
            c # r' \<Rightarrow> if ds \<noteq> [] \<and> c = delim then Some (ds, r') else None
          | [] \<Rightarrow> None))"

text \<open>\<^verbatim>\<open>Date\((\d{4}),(\d+),(\d+),(\d+),(\d+),(\d+)\)\<close> matched at the start of \<open>s\<close>.\<close>

definition wrapped_date_at :: "string \<Rightarrow> string list option" where
  "wrapped_date_at s =
     (if prefix ''Date('' s then
        (case digits_then (CHR '','') (drop 5 s) of
           None \<Rightarrow> None
         | Some (g1, r1) \<Rightarrow>
             if length g1 \<noteq> 4 then None
             else (case digits_then (CHR '','') r1 of None \<Rightarrow> None | Some (g2, r2) \<Rightarrow>
                  (case digits_then (CHR '','') r2 of None \<Rightarrow> None | Some (g3, r3) \<Rightarrow>
                  (case digits_then (CHR '','') r3 of None \<Rightarrow> None | Some (g4, r4) \<Rightarrow>
                  (case digits_then (CHR '','') r4 of None \<Rightarrow> None | Some (g5, r5) \<Rightarrow>
                  (case digits_then (CHR '')'') r5 of None \<Rightarrow> None | Some (g6, r6) \<Rightarrow>
                     Some [g1, g2, g3, g4, g5, g6]))))))
      else None)"

text \<open>The unanchored search of \<^verbatim>\<open>cell.v.match(...)\<close>: the leftmost position that matches.\<close>

fun match_wrapped_date :: "string \<Rightarrow> string list option" where
  "match_wrapped_date [] = None"
| "match_wrapped_date (c # cs) =
     (case wrapped_date_at (c # cs) of Some gs \<Rightarrow> Some gs | None \<Rightarrow> match_wrapped_date cs)"

text \<open>\<^verbatim>\<open>^(\d{1,2}):(\d{2})$\<close>\<close>

definition match_time :: "string \<Rightarrow> (string \<times> string) option" where
  "match_time s =
     (let hs = takeWhile is_digit s; r = dropWhile is_digit s
      in (case r of
            c # ms \<Rightarrow>
              if c = CHR '':'' \<and> (length hs = 1 \<or> length hs = 2) \<and>
                 length ms = 2 \<and> list_all is_digit ms
              then Some (hs, ms) else None
          | [] \<Rightarrow> None))"

text \<open>Stage (a): the formatted string \<^verbatim>\<open>cell.f\<close>, read as \<^verbatim>\<open>dd/MM/yyyy HH:mm:ss\<close>.\<close>

definition stage_formatted :: "jsval \<Rightarrow> error + jsval" where
  "stage_formatted f =
     (case f of
        Str fs \<Rightarrow>
          (let halves = js_split (CHR '' '') fs;
               dmy = js_split (CHR ''/'') (hd halves)
           in if length halves < 2 then Inl TypeError
              else (let hms = js_split (CHR '':'') (halves ! 1)
                    in Inr (DateV (Date_UTC [num_at dmy 2, js_sub1 (num_at dmy 1), num_at dmy 0,
                                            num_at hms 0, num_at hms 1, num_at hms 2]))))
      | _ \<Rightarrow> Inl TypeError)"

text \<open>Stage (b): the wrapped literal inside \<^verbatim>\<open>cell.v\<close>.\<close>

definition stage_wrapped :: "string \<Rightarrow> jsval option" where
  "stage_wrapped v =
     (case match_wrapped_date v of
        None \<Rightarrow> None
      | Some gs \<Rightarrow> Some (DateV (Date_UTC (map parseInt_digits gs))))"

text \<open>Stage (c): \<^verbatim>\<open>new Date(cell.v)\<close>, kept when its time value is a number.\<close>

definition stage_iso :: "world \<Rightarrow> string \<Rightarrow> jsval option" where
  "stage_iso w v = (case Date_parse w v of None \<Rightarrow> None | Some t \<Rightarrow> Some (DateV (Some t)))"

text \<open>Stage (d): a time of day \<^verbatim>\<open>H:MM\<close> or \<^verbatim>\<open>HH:MM\<close>, set on the current date.\<close>

definition stage_time :: "world \<Rightarrow> string \<Rightarrow> jsval option" where
  "stage_time w v =
     (case match_time v of
        None \<Rightarrow> None
      | Some (hs, ms) \<Rightarrow>
          Some (DateV
            (Option.bind (setHours w (Date_current w) (parseInt_digits hs)) (\<lambda>t1.
             Option.bind (setMinutes w t1 (parseInt_digits ms)) (\<lambda>t2.
             setSeconds w t2 (Fin 0))))))"

text \<open>The value stored for a cell whose \<^verbatim>\<open>v\<close> is the string \<open>v\<close> and whose \<^verbatim>\<open>f\<close> is \<open>f\<close>.\<close>

definition decodeStringCell :: "world \<Rightarrow> string \<Rightarrow> jsval \<Rightarrow> error + jsval" where
  "decodeStringCell w v f =
     (if truthy f then stage_formatted f
      else (case stage_wrapped v of
              Some d \<Rightarrow> Inr d
            | None \<Rightarrow>
               (case stage_iso w v of
                  Some d \<Rightarrow> Inr d
                | None \<Rightarrow>
                   (case stage_time w v of
                      Some d \<Rightarrow> Inr d
                    | None \<Rightarrow> Inr (Str v)))))"

text \<open>The callback of \<^verbatim>\<open>row.c.forEach\<close>: the value stored under the cell's header.\<close>

definition normalizeCell :: "world \<Rightarrow> jsval \<Rightarrow> error + jsval" where
  "normalizeCell w cell =
     (case get_opt cell ''v'' of
        Str v \<Rightarrow> bind_err (get_prop cell ''f'') (decodeStringCell w v)
      | other \<Rightarrow> Inr (js_or other Null))"

text \<open>\<^verbatim>\<open>obj[key] = val\<close>\<close>

fun obj_set :: "js_object \<Rightarrow> string \<Rightarrow> jsval \<Rightarrow> js_object" where
  "obj_set [] k x = [(k, x)]"
| "obj_set ((k', x') # kvs) k x = (if k' = k then (k, x) # kvs else (k', x') # obj_set kvs k x)"

text \<open>\<^verbatim>\<open>headers[index]\<close> as a property key: the string \<^verbatim>\<open>undefined\<close> past the end.\<close>

definition headerKey :: "string list \<Rightarrow> nat \<Rightarrow> string" where
  "headerKey headers i = (if i < length headers then headers ! i else ''undefined'')"

fun normalizeCells :: "world \<Rightarrow> string list \<Rightarrow> nat \<Rightarrow> js_object \<Rightarrow> jsval list \<Rightarrow> error + js_object" where
  "normalizeCells w headers i obj [] = Inr obj"
| "normalizeCells w headers i obj (cell # cells) =
     bind_err (normalizeCell w cell) (\<lambda>x.
       normalizeCells w headers (Suc i) (obj_set obj (headerKey headers i) x) cells)"

definition normalizeRow :: "world \<Rightarrow> string list \<Rightarrow> jsval \<Rightarrow> error + js_object" where
  "normalizeRow w headers row =
     bind_err (get_prop row ''c'') (\<lambda>cells.
       (case cells of Arr cs \<Rightarrow> normalizeCells w headers 0 [] cs | _ \<Rightarrow> Inl TypeError))"

section \<open>The Merge/Dedup Engine: \<^verbatim>\<open>filterNewEvents\<close> (utils/scraper.ts)\<close>

text \<open>\<^verbatim>\<open>interface EventData\<close>; the optional \<^verbatim>\<open>registrationLink\<close> is an option.\<close>

record EventData =
  eventName :: string
  tags :: "string list"
  startDate :: string
  endDate :: string
  location :: string
  description :: string
  image' :: string
  registrationLink :: "string option"

text \<open>
  The object literal that \<^verbatim>\<open>filterNewEvents\<close> maps each kept event to. The source's
  property names carry accents (\<^verbatim>\<open>horario_de_inicio\<close>, \<^verbatim>\<open>horario_de_termino\<close>,
  \<^verbatim>\<open>descricao\<close>, \<^verbatim>\<open>link_de_inscricao\<close> with their diacritics), dropped in the field names.
\<close>

record SheetRow =
  evento :: string
  tipo_de_evento :: string
  horario_de_inicio :: string
  horario_de_termino :: string
  local_f :: string
  descricao :: string
  flyer :: string
  link_de_inscricao :: string

text \<open>The property name of the start time as the source spells it, accents included.\<close>

definition key_horario_de_inicio :: string where
  "key_horario_de_inicio = ''hor'' @ [CHR 0xE1] @ ''rio_de_in'' @ [CHR 0xED] @ ''cio''"

text \<open>
  The callback of \<^verbatim>\<open>existingData.some(...)\<close>: the existing record carries the scraped
  event's name and start date, both compared with \<^verbatim>\<open>===\<close>.
\<close>

definition sameEvent :: "EventData \<Rightarrow> js_object \<Rightarrow> bool" where
  "sameEvent newEvent existingEvent =
     (strict_eq (obj_get existingEvent ''evento'') (Str (eventName newEvent)) \<and>
      strict_eq (obj_get existingEvent key_horario_de_inicio) (Str (startDate newEvent)))"

text \<open>The callback of \<^verbatim>\<open>.filter\<close>: no existing record is the same event.\<close>

definition isNew :: "js_object list \<Rightarrow> EventData \<Rightarrow> bool" where
  "isNew existingData newEvent = (\<not> list_ex (sameEvent newEvent) existingData)"

text \<open>The callback of \<^verbatim>\<open>.map\<close>; \<^verbatim>\<open>event.registrationLink || ''\<close> is the last field.\<close>

definition toSheetRow :: "EventData \<Rightarrow> SheetRow" where
  "toSheetRow event =
     \<lparr> evento = eventName event,
       tipo_de_evento = js_join '', '' (tags event),
       horario_de_inicio = startDate event,
       horario_de_termino = endDate event,
       local_f = location event,
       descricao = description event,
       flyer = image' event,
       link_de_inscricao =
         (case registrationLink event of
            None \<Rightarrow> []
          | Some l \<Rightarrow> (if l \<noteq> [] then l else [])) \<rparr>"

definition filterNewEvents :: "EventData list \<Rightarrow> js_object list \<Rightarrow> SheetRow list" where
  "filterNewEvents newEvents existingData =
     map toSheetRow (filter (isNew existingData) newEvents)"

text \<open>
  The same function on an explicit store of arrays, to say what it writes. A JavaScript
  array is a mutable object: the store holds every array that exists, an array is named
  by its index in the store, and \<^verbatim>\<open>filter\<close> and \<^verbatim>\<open>map\<close> each create a new array
  while \<^verbatim>\<open>some\<close> only reads.
\<close>

datatype js_array =
    EventArray "EventData list"
  | RecordArray "js_object list"
  | RowArray "SheetRow list"

type_synonym store = "js_array list"

definition new_array :: "store \<Rightarrow> js_array \<Rightarrow> nat \<times> store" where
  "new_array st xs = (length st, st @ [xs])"

definition filterNewEvents_on :: "store \<Rightarrow> nat \<Rightarrow> nat \<Rightarrow> error + nat \<times> store" where
  "filterNewEvents_on st newEvents existingData =
     (if newEvents < length st \<and> existingData < length st then
        (case (st ! newEvents, st ! existingData) of
           (EventArray events, RecordArray records) \<Rightarrow>
             (case new_array st (EventArray (filter (isNew records) events)) of
                (kept, st1) \<Rightarrow>
                  (case st1 ! kept of
                     EventArray keptEvents \<Rightarrow> Inr (new_array st1 (RowArray (map toSheetRow keptEvents)))
                   | _ \<Rightarrow> Inl TypeError))
         | _ \<Rightarrow> Inl TypeError)
      else Inl TypeError)"

section \<open>The Page Scraper and the merge cycle (utils/scraper.ts)\<close>

definition TARGET_URL :: string where
  "TARGET_URL = ''https://elcabong.com.br/agenda/''"


text \<open>The callback of \<^verbatim>\<open>$('.evento').each\<close>: \<^verbatim>\<open>toISOString\<close> throws a RangeError on an
  invalid Date; a date-time text without a space leaves \<^verbatim>\<open>time\<close> undefined, which the
  template prints as \<^verbatim>\<open>undefined\<close>.\<close>

definition scrapeElement :: "world \<Rightarrow> EventoElement \<Rightarrow> error + EventData" where
  "scrapeElement w element =
     (let title = js_trim (titulo_text element);
          dateTime = js_trim (data_text element);
          parts = js_split (CHR '' '') dateTime;
          date = hd parts;
          time = (if 1 < length parts then parts ! 1 else ''undefined'');
          descr = js_trim (descricao_text element);
          imageUrl = (case imagem_src element of
                        None \<Rightarrow> None
                      | Some src \<Rightarrow> if src \<noteq> [] then Some src else None)
      in (case Date_parse w (date @ ''T'' @ time @ '':00Z'') of
            None \<Rightarrow> Inl RangeError
          | Some t \<Rightarrow>
              Inr \<lparr> eventName = title,
                    tags = [],
                    startDate = Date_toISOString w t,
                    endDate = Date_toISOString w t,
                    location = ''El Cabong'',
                    description = descr,
                    image' = (case imageUrl of None \<Rightarrow> ''/images/astro-post.jpg'' | Some u \<Rightarrow> u),
                    registrationLink = None \<rparr>))"

definition scrapeEvents :: "world \<Rightarrow> error + EventData list" where
  "scrapeEvents w =
     bind_err (axios_get w TARGET_URL) (\<lambda>page.
       map_err (scrapeElement w) (cheerio_eventos w page))"


section \<open>The image of an event page (pages/events/[...slug].astro)\<close>

definition class_char :: "char \<Rightarrow> bool" where
  "class_char c = (c \<in> set ''abcdefghijklmnopqrstuvwxyzABCDEFGHIJKLMNOPQRSTUVWXYZ0123456789_-'')"

text \<open>\<^verbatim>\<open>[\/=]([-\w]{25,})\<close> matched at the start of \<open>s\<close>: the greedy run is the capture.\<close>

definition token_at :: "string \<Rightarrow> string option" where
  "token_at s =
     (case s of
        [] \<Rightarrow> None
      | c # cs \<Rightarrow>
          if (c = CHR ''/'' \<or> c = CHR ''='') \<and> 25 \<le> length (takeWhile class_char cs)
          then Some (takeWhile class_char cs) else None)"

fun match_file_id :: "string \<Rightarrow> string option" where
  "match_file_id [] = None"
| "match_file_id (c # cs) =
     (case token_at (c # cs) of Some t \<Rightarrow> Some t | None \<Rightarrow> match_file_id cs)"

definition imageUrl :: "jsval \<Rightarrow> error + string" where
  "imageUrl raw =
     (if truthy raw then
        (case raw of
           Str s \<Rightarrow>
             if prefix ''https://drive.google.com'' s then
               Inr (''https://lh3.googleusercontent.com/d/'' @
                    (case match_file_id s of None \<Rightarrow> ''undefined'' | Some t \<Rightarrow> t) @
                    ''=w1000'')
             else if prefix ''http'' s then Inr s
             else Inr (''/images/'' @ s)
         | _ \<Rightarrow> Inl TypeError)
      else Inr ''/images/astro-post.jpg'')"

section \<open>Notions used in the statements\<close>

text \<open>A day or month as two decimal digits, a year as four.\<close>

definition two_digits :: "nat \<Rightarrow> string" where
  "two_digits n = [decimal_digit (n div 10), decimal_digit (n mod 10)]"

definition four_digits :: "nat \<Rightarrow> string" where
  "four_digits n = two_digits (n div 100) @ two_digits (n mod 100)"

text \<open>The length of month \<open>m\<close> (1 to 12) of year \<open>y\<close>.\<close>

definition DaysInMonth :: "int \<Rightarrow> int \<Rightarrow> int" where
  "DaysInMonth y m = MonthStart m (InLeapYear y) - MonthStart (m - 1) (InLeapYear y)"

text \<open>No cache entry carries a version above the counter.\<close>

definition versions_bounded :: "SheetState \<Rightarrow> bool" where
  "versions_bounded st = (\<forall>k entry. cache st k = Some entry \<longrightarrow> version entry \<le> currentVersion st)"

section \<open>Example runtimes and tables\<close>

text \<open>A runtime with no network, in the UTC time zone, whose Date parser knows no format.\<close>

definition offline_world :: world where
  "offline_world =
     \<lparr> fetch_text = (\<lambda>url. Inl NetworkError),
       JSON_parse = (\<lambda>s. None),
       Date_now = 7,
       Date_parse = (\<lambda>s. None),
       Date_current = 1735000000000,
       setHours = (\<lambda>t h. case ToInteger h of None \<Rightarrow> None
                    | Some k \<Rightarrow> TimeClip (t - t mod 86400000 + k * 3600000 + t mod 3600000)),
       setMinutes = (\<lambda>t m. case ToInteger m of None \<Rightarrow> None
                    | Some k \<Rightarrow> TimeClip (t - t mod 3600000 + k * 60000 + t mod 60000)),
       setSeconds = (\<lambda>t s. case ToInteger s of None \<Rightarrow> None
                    | Some k \<Rightarrow> TimeClip (t - t mod 60000 + k * 1000 + t mod 1000)),
       Date_toISOString = (\<lambda>t. []),
       fraction_digits = (\<lambda>r. []),
       label_toString = (\<lambda>v. Inr []),
       toLowerCase = (\<lambda>s. s),
       axios_get = (\<lambda>url. Inl NetworkError),
       cheerio_eventos = (\<lambda>page. []) \<rparr>"

text \<open>A runtime whose sheet endpoint answers with \<open>body\<close>, which decodes to \<open>decoded\<close>.\<close>

definition sheet_world :: "string \<Rightarrow> jsval option \<Rightarrow> world" where
  "sheet_world body decoded =
     offline_world\<lparr> fetch_text := (\<lambda>url. Inr body), JSON_parse := (\<lambda>s. decoded) \<rparr>"

definition cell :: "jsval \<Rightarrow> jsval" where
  "cell x = Obj [(''v'', x)]"

definition fixture_row :: "string \<Rightarrow> jsval \<Rightarrow> string \<Rightarrow> jsval" where
  "fixture_row name dateCell timeStr =
     Obj [(''c'', Arr [cell (Str name), cell dateCell, cell (Str timeStr),
                      cell (Str ''Teatro''), cell (Str ''show''), Null, cell (Str ''poster.jpg'')])]"

definition fixture_table :: "jsval \<Rightarrow> jsval" where
  "fixture_table dateCell =
     Obj [(''table'',
       Obj [(''cols'', Arr [Obj [(''label'', Str ''Evento'')], Obj [(''label'', Str ''Data'')]]),
            (''rows'', Arr [fixture_row ''A'' (Str ''25/12/2024'') ''20:00'',
                           fixture_row ''B'' dateCell ''21:30'',
                           fixture_row ''C'' (Str ''01/02/2025'') ''19:00''])])]"

text \<open>The same runtime with a Date parser that knows one ISO string.\<close>

definition iso_world :: world where
  "iso_world =
     offline_world\<lparr> Date_parse :=
       (\<lambda>s. if s = ''2024-12-25T20:00:00Z'' then Some 1735156800000 else None) \<rparr>"

text \<open>A runtime whose scrape target answers with a page on which \<open>elements\<close> match; its
  Date parser knows the date-time \<^verbatim>\<open>2024-01-01T20:00:00Z\<close>.\<close>

definition page_world :: "EventoElement list \<Rightarrow> world" where
  "page_world elements =
     offline_world\<lparr> axios_get := (\<lambda>url. Inr ''<html><body></body></html>''),
                    cheerio_eventos := (\<lambda>page. elements),
                    Date_parse := (\<lambda>s. if s = ''2024-01-01T20:00:00Z'' then Some 1704139200000 else None),
                    Date_toISOString := (\<lambda>t. ''2024-01-01T20:00:00.000Z'') \<rparr>"

definition show_x_element :: "string \<Rightarrow> EventoElement" where
  "show_x_element when =
     \<lparr> titulo_text = '' Show X '', data_text = when, descricao_text = ''Ao vivo'',
       imagem_src = None \<rparr>"

text \<open>A scraped event.\<close>

definition show_x :: EventData where
  "show_x = \<lparr> eventName = ''Show X'', tags = [''musica'', ''ao vivo''],
              startDate = ''2024-01-01T20:00:00.000Z'', endDate = ''2024-01-01T20:00:00.000Z'',
              location = ''El Cabong'', description = ''Ao vivo'',
              image' = ''/images/astro-post.jpg'', registrationLink = None \<rparr>"

text \<open>A table of one row that has a name and nothing else.\<close>

definition one_row_table :: jsval where
  "one_row_table =
     Obj [(''table'',
       Obj [(''cols'', Arr [Obj [(''label'', Str ''Evento'')]]),
            (''rows'', Arr [Obj [(''c'', Arr [cell (Str ''A'')])]])])]"

definition cached_state :: SheetState where
  "cached_state =
     \<lparr> cache = [''sheet-0'' \<mapsto> \<lparr> data = [[(''evento'', Str ''old'')]], timestamp = 5, version = 3 \<rparr>],
       currentVersion = 3, lastModified = 5 \<rparr>"

section \<open>Properties\<close>

lemmas num_eval = StringToNumber_def js_trim_def is_space_def radix_literal_def radix_val_def
  unsigned_literal_def unsigned_decimal_def is_digit_def exponent_part_def digits_val_def
  digit_val_def all_digits_def Let_def

lemmas date_eval = Date_UTC_def arg_or_def trunc_def MakeFullYear_def MakeDay_def MakeTime_def
  MakeDate_def TimeClip_def DayFromYear_def MonthStart_def InLeapYear_def msPerDay_def

lemmas row_eval = transformRow_def bind_err_def get_prop_def cell_v_def get_index_def get_opt_def
  obj_get_def js_or_def parseDate_def parseTime_def num_at_def num_toString_def padStart_def
  fixture_row_def cell_def show_nat.simps decimal_digit_def

lemmas sheet_eval = fetchRows_def array_map_def headerOf_def sheet_world_def offline_world_def
  fixture_table_def one_row_table_def

lemma lt10_cases: "n < 10 \<Longrightarrow> n \<in> {0, 1, 2, 3, 4, 5, 6, 7, 8, 9::nat}"
  by auto

lemma is_digit_not_special:
  assumes "is_digit c"
  shows "\<not> is_space c" and "c \<noteq> CHR ''+''" and "c \<noteq> CHR ''-''" and "c \<noteq> CHR ''I''"
    and "c \<noteq> CHR ''x''" and "c \<noteq> CHR ''X''" and "c \<noteq> CHR ''o''" and "c \<noteq> CHR ''O''"
    and "c \<noteq> CHR ''b''" and "c \<noteq> CHR ''B''" and "c \<noteq> CHR ''.''" and "c \<noteq> CHR ''e''"
    and "c \<noteq> CHR ''/''" and "c \<noteq> CHR '':''" and "c \<noteq> CHR '' ''"
  using assms unfolding is_digit_def is_space_def by auto

lemma decimal_digit_props:
  assumes "n < 10"
  shows "is_digit (decimal_digit n)" and "digit_val (decimal_digit n) = n"
  using lt10_cases[OF assms]
  by (elim insertE emptyE; simp add: decimal_digit_def is_digit_def digit_val_def)+

lemma dropWhile_hd: "xs \<noteq> [] \<Longrightarrow> \<not> P (hd xs) \<Longrightarrow> dropWhile P xs = xs"
  by (cases xs) simp_all

lemma js_trim_digits: "all_digits ds \<Longrightarrow> js_trim ds = ds"
proof -
  assume a: "all_digits ds"
  then have ne: "ds \<noteq> []" by (simp add: all_digits_def)
  with a have "is_digit (hd ds)" "is_digit (last ds)"
    by (simp_all add: all_digits_def list_all_iff)
  then have "\<not> is_space (hd ds)" "\<not> is_space (hd (rev ds))"
    using ne by (simp_all add: is_digit_not_special hd_rev)
  then have "dropWhile is_space ds = ds" "dropWhile is_space (rev ds) = rev ds"
    using ne by (simp_all add: dropWhile_hd)
  then show ?thesis by (simp add: js_trim_def)
qed

lemma radix_literal_digits: "list_all is_digit ds \<Longrightarrow> radix_literal ds = None"
proof (cases ds)
  case Nil
  then show ?thesis by (simp add: radix_literal_def)
next
  case (Cons z r)
  note zr = this
  assume a: "list_all is_digit ds"
  show ?thesis
  proof (cases r)
    case Nil
    with zr show ?thesis by (simp add: radix_literal_def)
  next
    case (Cons p r')
    with a zr have "is_digit p" by simp
    from is_digit_not_special(5-10)[OF this] Cons zr show ?thesis
      by (simp add: radix_literal_def)
  qed
qed

lemma unsigned_decimal_digits:
  "all_digits ds \<Longrightarrow> unsigned_decimal ds = Some (of_nat (digits_val ds))"
proof -
  assume a: "all_digits ds"
  then have tw: "takeWhile is_digit ds = ds" "dropWhile is_digit ds = []"
    by (auto simp: all_digits_def list_all_iff)
  from a have "ds \<noteq> []" by (simp add: all_digits_def)
  then show ?thesis
    by (simp add: unsigned_decimal_def tw exponent_part_def digits_val_def)
qed

lemma StringToNumber_digits:
  "all_digits ds \<Longrightarrow> StringToNumber ds = Fin (of_nat (digits_val ds))"
proof -
  assume a: "all_digits ds"
  then obtain c cs where ds: "ds = c # cs" by (cases ds) (auto simp: all_digits_def)
  from a ds have c: "is_digit c" by (simp add: all_digits_def)
  from a have rl: "radix_literal ds = None"
    by (simp add: radix_literal_digits all_digits_def)
  have ni: "ds \<noteq> ''Infinity''" using c ds is_digit_not_special(4) by auto
  have ul: "unsigned_literal ds = Fin (of_nat (digits_val ds))"
    using a ni by (simp add: unsigned_literal_def unsigned_decimal_digits)
  have "StringToNumber ds =
      (if c = CHR ''+'' then unsigned_literal cs
       else if c = CHR ''-'' then js_neg (unsigned_literal cs) else unsigned_literal ds)"
    using a rl by (simp add: StringToNumber_def js_trim_digits) (simp add: ds)
  with c ul show ?thesis by (simp add: is_digit_not_special)
qed

lemma two_digits_val:
  "n < 100 \<Longrightarrow> all_digits (two_digits n) \<and> digits_val (two_digits n) = n"
  by (simp add: two_digits_def all_digits_def digits_val_def decimal_digit_props)

lemma four_digits_val:
  "n < 10000 \<Longrightarrow> all_digits (four_digits n) \<and> digits_val (four_digits n) = n"
proof -
  assume n: "n < 10000"
  then have a: "n div 100 < 100" "n mod 100 < 100" by auto
  have "digits_val (four_digits n) = 100 * (n div 100) + n mod 100"
    using a by (simp add: four_digits_def two_digits_def digits_val_def decimal_digit_props)
  moreover have "all_digits (four_digits n)"
    using a by (simp add: four_digits_def two_digits_def all_digits_def decimal_digit_props)
  ultimately show ?thesis by simp
qed

lemma show_nat_two_digits:
  "n < 100 \<Longrightarrow> padStart 2 (CHR ''0'') (show_nat n) = two_digits n"
proof -
  assume n: "n < 100"
  show ?thesis
  proof (cases "n < 10")
    case True
    then show ?thesis
      by (simp add: show_nat.simps[of n] padStart_def two_digits_def decimal_digit_def)
  next
    case False
    with n have "n div 10 < 10" by auto
    with False show ?thesis
      by (simp add: show_nat.simps[of n] show_nat.simps[of "n div 10"] padStart_def two_digits_def)
  qed
qed

lemma div_bounds:
  fixes a k :: int
  assumes "0 < k"
  shows "k * (a div k) \<le> a" and "a < k * (a div k) + k"
proof -
  have "a = k * (a div k) + a mod k" by simp
  moreover have "0 \<le> a mod k" "a mod k < k" using assms by simp_all
  ultimately show "k * (a div k) \<le> a" and "a < k * (a div k) + k" by linarith+
qed

lemma DayFromYear_bounds:
  assumes "100 \<le> y" "y \<le> 9999"
  shows "- 700000 \<le> DayFromYear y" and "DayFromYear y \<le> 3000000"
proof -
  define a where "a = (y - 1969) div 4"
  define b where "b = (y - 1901) div 100"
  define c where "c = (y - 1601) div 400"
  have b4: "4 * a \<le> y - 1969" "y - 1969 < 4 * a + 4"
    unfolding a_def by (rule div_bounds, simp)+
  have b100: "100 * b \<le> y - 1901" "y - 1901 < 100 * b + 100"
    unfolding b_def by (rule div_bounds, simp)+
  have b400: "400 * c \<le> y - 1601" "y - 1601 < 400 * c + 400"
    unfolding c_def by (rule div_bounds, simp)+
  have eq: "DayFromYear y = 365 * (y - 1970) + a - b + c"
    by (simp add: DayFromYear_def a_def b_def c_def)
  have a: "- 468 \<le> a" "a \<le> 2008" using assms b4 by linarith+
  have b: "- 19 \<le> b" "b \<le> 80" using assms b100 by linarith+
  have c: "- 5 \<le> c" "c \<le> 21" using assms b400 by linarith+
  have y: "- 682550 \<le> 365 * (y - 1970)" "365 * (y - 1970) \<le> 2930585" using assms by simp_all
  show "- 700000 \<le> DayFromYear y"
    unfolding eq using a b c y by linarith
  show "DayFromYear y \<le> 3000000"
    unfolding eq using a b c y by linarith
qed

lemma succ_div:
  fixes n k :: int
  assumes "0 < k"
  shows "(n + 1) div k = n div k + (if (n + 1) mod k = 0 then 1 else 0)"
proof -
  define q where "q = n div k"
  define r where "r = n mod k"
  have n: "n = k * q + r" and r: "0 \<le> r" "r < k"
    using assms by (simp_all add: q_def r_def)
  show ?thesis
  proof (cases "r + 1 < k")
    case True
    have e: "n + 1 = k * q + (r + 1)" using n by simp
    have "(n + 1) div k = q" using r True by (intro int_div_pos_eq[OF e]) simp_all
    moreover have "(n + 1) mod k = r + 1" using r True by (intro int_mod_pos_eq[OF e]) simp_all
    ultimately show ?thesis using r by (simp add: q_def)
  next
    case False
    with r have rk: "r + 1 = k" by simp
    have e: "n + 1 = k * (q + 1) + 0" using n rk by (simp add: algebra_simps)
    have "(n + 1) div k = q + 1" using assms by (intro int_div_pos_eq[OF e]) simp_all
    moreover have "(n + 1) mod k = 0" using assms by (intro int_mod_pos_eq[OF e]) simp_all
    ultimately show ?thesis by (simp add: q_def)
  qed
qed

lemma leap_step:
  fixes y :: int
  shows "(y - 1968) div 4 - (y - 1969) div 4 = (if y mod 4 = 0 then 1 else 0)"
    and "(y - 1900) div 100 - (y - 1901) div 100 = (if y mod 100 = 0 then 1 else 0)"
    and "(y - 1600) div 400 - (y - 1601) div 400 = (if y mod 400 = 0 then 1 else 0)"
proof -
  have m: "(y - 1968) mod 4 = y mod 4" "(y - 1900) mod 100 = y mod 100"
    "(y - 1600) mod 400 = y mod 400"
    by algebra+
  show "(y - 1968) div 4 - (y - 1969) div 4 = (if y mod 4 = 0 then 1 else 0)"
    using succ_div[of 4 "y - 1969"] m(1) by simp
  show "(y - 1900) div 100 - (y - 1901) div 100 = (if y mod 100 = 0 then 1 else 0)"
    using succ_div[of 100 "y - 1901"] m(2) by simp
  show "(y - 1600) div 400 - (y - 1601) div 400 = (if y mod 400 = 0 then 1 else 0)"
    using succ_div[of 400 "y - 1601"] m(3) by simp
qed

lemma mod_400_100: "(y::int) mod 400 = 0 \<Longrightarrow> y mod 100 = 0"
proof -
  assume "y mod 400 = 0"
  then have "400 dvd y" by (simp add: dvd_eq_mod_eq_0)
  moreover have "(100::int) dvd 400" by simp
  ultimately have "100 dvd y" using dvd_trans by blast
  then show ?thesis by (simp add: dvd_eq_mod_eq_0)
qed

lemma mod_100_4: "(y::int) mod 100 = 0 \<Longrightarrow> y mod 4 = 0"
proof -
  assume "y mod 100 = 0"
  then have "100 dvd y" by (simp add: dvd_eq_mod_eq_0)
  moreover have "(4::int) dvd 100" by simp
  ultimately have "4 dvd y" using dvd_trans by blast
  then show ?thesis by (simp add: dvd_eq_mod_eq_0)
qed

lemma DayFromYear_succ: "DayFromYear (y + 1) = DayFromYear y + DaysInYear y"
proof -
  define a where "a = (y - 1969) div 4"
  define b where "b = (y - 1901) div 100"
  define c where "c = (y - 1601) div 400"
  define d4 :: int where "d4 = (if y mod 4 = 0 then 1 else 0)"
  define d100 :: int where "d100 = (if y mod 100 = 0 then 1 else 0)"
  define d400 :: int where "d400 = (if y mod 400 = 0 then 1 else 0)"
  have s: "(y - 1968) div 4 = a + d4" "(y - 1900) div 100 = b + d100" "(y - 1600) div 400 = c + d400"
    using leap_step[of y] unfolding a_def b_def c_def d4_def d100_def d400_def by linarith+
  have "DayFromYear (y + 1) = 365 * (y - 1969) + (y - 1968) div 4 - (y - 1900) div 100 + (y - 1600) div 400"
    by (simp add: DayFromYear_def)
  also have "\<dots> = 365 * (y - 1969) + (a + d4) - (b + d100) + (c + d400)"
    unfolding s ..
  also have "\<dots> = (365 * (y - 1970) + a - b + c) + (365 + d4 - d100 + d400)"
    by (simp add: algebra_simps)
  also have "365 * (y - 1970) + a - b + c = DayFromYear y"
    by (simp add: DayFromYear_def a_def b_def c_def)
  also have "365 + d4 - d100 + d400 = DaysInYear y"
    unfolding d4_def d100_def d400_def DaysInYear_def InLeapYear_def
    using mod_400_100[of y] mod_100_4[of y] by (cases "y mod 4 = 0"; cases "y mod 100 = 0"; cases "y mod 400 = 0"; simp)
  finally show ?thesis .
qed

lemma month_cases: "1 \<le> m \<Longrightarrow> m \<le> 12 \<Longrightarrow> m \<in> {1, 2, 3, 4, 5, 6, 7, 8, 9, 10, 11, 12::int}"
  unfolding insert_iff empty_iff by presburger

lemma MonthStart_mono:
  assumes "1 \<le> m" "m \<le> 12"
  shows "0 \<le> MonthStart (m - 1) l" and "MonthStart (m - 1) l < MonthStart m l"
    and "MonthStart m l \<le> (if l then 366 else 365)"
    and "MonthStart m l - MonthStart (m - 1) l \<le> 31"
  using month_cases[OF assms]
  by (elim insertE emptyE; simp add: MonthStart_def)+

lemma trunc_of_int: "trunc (of_int k) = k"
  by (simp add: trunc_def)

lemma trunc_zero: "trunc 0 = 0"
  by (simp add: trunc_def)

lemma Date_UTC_ymd:
  "Date_UTC [Fin (of_int y), Fin (of_int m), Fin (of_int d)] =
     TimeClip (MakeDate (MakeDay (MakeFullYear y) m d) 0)"
  by (simp add: Date_UTC_def arg_or_def trunc_of_int trunc_zero MakeTime_def)

lemma MakeDay_in_year:
  "0 \<le> m \<Longrightarrow> m \<le> 11 \<Longrightarrow>
   MakeDay y m d = DayFromYear y + MonthStart m (InLeapYear y) + d - 1"
  by (simp add: MakeDay_def Let_def)

lemma js_split_sep:
  "sep \<notin> set xs \<Longrightarrow> js_split sep (xs @ sep # rest) = xs # js_split sep rest"
  by (induction xs) auto

lemma js_split_none: "sep \<notin> set xs \<Longrightarrow> js_split sep xs = [xs]"
  by (induction xs) auto

lemma all_digits_no_sep:
  "all_digits ds \<Longrightarrow> CHR ''/'' \<notin> set ds \<and> CHR '':'' \<notin> set ds \<and> CHR '' '' \<notin> set ds"
  using is_digit_not_special(13-15) by (auto simp: all_digits_def list_all_iff)

lemma parseDate_valid:
  fixes d m y :: nat
  assumes m: "1 \<le> m" "m \<le> 12" and d: "1 \<le> d" "int d \<le> DaysInMonth (int y) (int m)"
    and y: "100 \<le> y" "y \<le> 9999"
  defines "t \<equiv> msPerDay * (DayFromYear (int y) + MonthStart (int m - 1) (InLeapYear (int y)) + int d - 1)"
  shows "parseDate (Str (two_digits d @ ''/'' @ two_digits m @ ''/'' @ four_digits y)) = Inr (DateV (Some t))"
    and "TimeFromYear (int y) \<le> t" and "t < TimeFromYear (int y + 1)"
    and "MonthStart (int m - 1) (InLeapYear (int y)) \<le> t div msPerDay - DayFromYear (int y)"
    and "t div msPerDay - DayFromYear (int y) < MonthStart (int m) (InLeapYear (int y))"
    and "t div msPerDay - DayFromYear (int y) - MonthStart (int m - 1) (InLeapYear (int y)) + 1 = int d"
    and "t mod msPerDay = 0"
proof -
  let ?l = "InLeapYear (int y)"
  have mi: "1 \<le> int m" "int m \<le> 12" using m by simp_all
  note ms = MonthStart_mono[OF mi, of ?l]
  have d31: "d < 100"
    using d(2) ms(4) by (simp add: DaysInMonth_def)
  have dv: "all_digits (two_digits d)" "digits_val (two_digits d) = d"
    using two_digits_val[of d] d31 by simp_all
  have mv: "all_digits (two_digits m)" "digits_val (two_digits m) = m"
    using two_digits_val[of m] m by simp_all
  have yv: "all_digits (four_digits y)" "digits_val (four_digits y) = y"
    using four_digits_val[of y] y by simp_all
  have split: "js_split (CHR ''/'') (two_digits d @ ''/'' @ two_digits m @ ''/'' @ four_digits y)
      = [two_digits d, two_digits m, four_digits y]"
    using all_digits_no_sep[OF dv(1)] all_digits_no_sep[OF mv(1)] all_digits_no_sep[OF yv(1)]
    by (simp add: js_split_sep js_split_none)
  have nums: "StringToNumber (two_digits d) = Fin (of_nat d)"
    "StringToNumber (two_digits m) = Fin (of_nat m)"
    "StringToNumber (four_digits y) = Fin (of_nat y)"
    using StringToNumber_digits dv mv yv by simp_all
  have sub: "js_sub1 (Fin (of_nat m)) = Fin (of_int (int m - 1))" by simp
  have utc: "Date_UTC [Fin (of_nat y), js_sub1 (Fin (of_nat m)), Fin (of_nat d)] =
      TimeClip (MakeDate (MakeDay (MakeFullYear (int y)) (int m - 1) (int d)) 0)"
    unfolding sub using Date_UTC_ymd[of "int y" "int m - 1" "int d"] by simp
  have fy: "MakeFullYear (int y) = int y" using y by (simp add: MakeFullYear_def)
  have md: "MakeDay (int y) (int m - 1) (int d) = DayFromYear (int y) + MonthStart (int m - 1) ?l + int d - 1"
    using mi by (intro MakeDay_in_year) simp_all
  have t: "MakeDate (MakeDay (MakeFullYear (int y)) (int m - 1) (int d)) 0 = t"
    by (simp add: fy md MakeDate_def t_def mult.commute)
  have yb: "- 700000 \<le> DayFromYear (int y)" "DayFromYear (int y) \<le> 3000000"
    using DayFromYear_bounds[of "int y"] y by simp_all
  have day_lo: "0 \<le> MonthStart (int m - 1) ?l + int d - 1" using ms d by simp
  have day_hi: "MonthStart (int m - 1) ?l + int d - 1 < DaysInYear (int y)"
    using ms d(2) by (simp add: DaysInMonth_def DaysInYear_def split: if_splits)
  have "\<bar>t\<bar> \<le> 8640000000000000"
    using yb day_lo day_hi by (simp add: t_def msPerDay_def DaysInYear_def split: if_splits)
  then have clip: "TimeClip t = Some t" by (simp add: TimeClip_def)
  define s where "s = two_digits d @ ''/'' @ two_digits m @ ''/'' @ four_digits y"
  have s_split: "js_split (CHR ''/'') s = [two_digits d, two_digits m, four_digits y]"
    unfolding s_def by (rule split)
  have "s \<noteq> []" by (simp add: s_def)
  then have "parseDate (Str s) = Inr (DateV (Some t))"
    using utc t clip by (simp add: parseDate_def s_split num_at_def nums Let_def)
  then show "parseDate (Str (two_digits d @ ''/'' @ two_digits m @ ''/'' @ four_digits y)) = Inr (DateV (Some t))"
    unfolding s_def .
  show "TimeFromYear (int y) \<le> t"
    using day_lo by (simp add: TimeFromYear_def t_def msPerDay_def)
  show "t < TimeFromYear (int y + 1)"
    using day_hi by (simp add: TimeFromYear_def t_def msPerDay_def DayFromYear_succ)
  have tdiv: "t div msPerDay = DayFromYear (int y) + MonthStart (int m - 1) ?l + int d - 1"
    by (simp add: t_def msPerDay_def)
  show "MonthStart (int m - 1) ?l \<le> t div msPerDay - DayFromYear (int y)"
    using d by (simp add: tdiv)
  show "t div msPerDay - DayFromYear (int y) < MonthStart (int m) ?l"
    using d(2) by (simp add: tdiv DaysInMonth_def)
  show "t div msPerDay - DayFromYear (int y) - MonthStart (int m - 1) ?l + 1 = int d"
    by (simp add: tdiv)
  show "t mod msPerDay = 0" by (simp add: t_def)
qed

lemma parseTime_valid:
  fixes h mi :: nat
  assumes "h < 100" "mi < 100"
  shows "parseTime w (Str (two_digits h @ '':'' @ two_digits mi)) = Inr (Str (two_digits h @ '':'' @ two_digits mi))"
proof -
  have hv: "all_digits (two_digits h)" "digits_val (two_digits h) = h"
    using two_digits_val[of h] assms by simp_all
  have mv: "all_digits (two_digits mi)" "digits_val (two_digits mi) = mi"
    using two_digits_val[of mi] assms by simp_all
  have split: "js_split (CHR '':'') (two_digits h @ '':'' @ two_digits mi) = [two_digits h, two_digits mi]"
    using all_digits_no_sep[OF hv(1)] all_digits_no_sep[OF mv(1)]
    by (simp add: js_split_sep js_split_none)
  have nums: "StringToNumber (two_digits h) = Fin (of_nat h)"
    "StringToNumber (two_digits mi) = Fin (of_nat mi)"
    using StringToNumber_digits hv mv by simp_all
  have ts: "num_toString (fraction_digits w) (Fin (of_nat n)) = show_nat n" if "n < 100" for n
  proof -
    have "(of_nat n :: rat) < of_nat 100" using that by (simp only: of_nat_less_iff)
    also have "(of_nat 100 :: rat) < 10 ^ 21" by simp
    finally have "(of_nat n :: rat) < 10 ^ 21" .
    then show ?thesis by (simp add: num_toString_def)
  qed
  define s where "s = two_digits h @ '':'' @ two_digits mi"
  have s_split: "js_split (CHR '':'') s = [two_digits h, two_digits mi]"
    unfolding s_def by (rule split)
  have "s \<noteq> []" by (simp add: s_def)
  then have "parseTime w (Str s) = Inr (Str s)"
    using assms by (simp add: parseTime_def s_split num_at_def nums ts show_nat_two_digits Let_def)
      (simp add: s_def)
  then show ?thesis unfolding s_def .
qed

lemma getGoogleSheetData_failure:
  "fetchRows w sheetId gid = Inl e \<Longrightarrow>
   getGoogleSheetData w st sheetId gid =
     (Inr (case cache st (cacheKey sheetId gid) of Some entry \<Rightarrow> data entry | None \<Rightarrow> []), st)"
  by (simp add: getGoogleSheetData_def)

lemma getGoogleSheetData_success:
  "fetchRows w sheetId gid = Inr rows \<Longrightarrow>
   getGoogleSheetData w st sheetId gid =
     (Inr rows,
      st\<lparr> currentVersion := js_add1 (currentVersion st),
          lastModified := Date_now w,
          cache := (cache st)(cacheKey sheetId gid \<mapsto>
             \<lparr> data = rows, timestamp = Date_now w, version = js_add1 (currentVersion st) \<rparr>) \<rparr>)"
  by (simp add: getGoogleSheetData_def Let_def)

lemma fetchRows_network:
  "fetch_text w (sheetUrl sheetId gid) = Inl e \<Longrightarrow> fetchRows w sheetId gid = Inl e"
  by (simp add: fetchRows_def bind_err_def)

lemma fetchRows_framing:
  "fetch_text w (sheetUrl sheetId gid) = Inr body \<Longrightarrow> JSON_parse w (stripFraming body) = None \<Longrightarrow>
   fetchRows w sheetId gid = Inl SyntaxError"
  by (simp add: fetchRows_def bind_err_def)

lemma getGoogleSheetData_returns:
  "\<exists>rows st'. getGoogleSheetData w st sheetId gid = (Inr rows, st')"
  by (cases "fetchRows w sheetId gid")
     (simp_all add: getGoogleSheetData_failure getGoogleSheetData_success)

lemma stripFraming_exact:
  "length pre = 47 \<Longrightarrow> length suf = 2 \<Longrightarrow> stripFraming (pre @ payload @ suf) = payload"
  by (simp add: stripFraming_def)

text \<open>
  Claim C3. \<^verbatim>\<open>getGoogleSheetData\<close> never throws: every call returns rows. When the
  fetch, the decoding or the transformation fails, the rows are those of the cache entry
  of the key, or none when the key has no entry. A network failure is such a failure,
  and so is a response whose text, stripped of its first 47 and last 2 characters, is
  no JSON.
\<close>

theorem getGoogleSheetData_fail_soft:
  "(\<exists>rows. fst (getGoogleSheetData w st sheetId gid) = Inr rows) \<and>
   (fetchRows w sheetId gid = Inl e \<longrightarrow>
      fst (getGoogleSheetData w st sheetId gid) =
        Inr (case cache st (cacheKey sheetId gid) of Some entry \<Rightarrow> data entry | None \<Rightarrow> [])) \<and>
   (fetch_text w (sheetUrl sheetId gid) = Inl e \<longrightarrow> fetchRows w sheetId gid = Inl e) \<and>
   (fetch_text w (sheetUrl sheetId gid) = Inr body \<and> JSON_parse w (stripFraming body) = None \<longrightarrow>
      fetchRows w sheetId gid = Inl SyntaxError) \<and>
   (length pre = 47 \<and> length suf = 2 \<longrightarrow> stripFraming (pre @ payload @ suf) = payload)"
proof (intro conjI impI)
  assume "length pre = 47 \<and> length suf = 2"
  then show "stripFraming (pre @ payload @ suf) = payload" by (simp add: stripFraming_exact)
next
  obtain rows st' where "getGoogleSheetData w st sheetId gid = (Inr rows, st')"
    using getGoogleSheetData_returns by blast
  then show "\<exists>rows. fst (getGoogleSheetData w st sheetId gid) = Inr rows" by simp
next
  assume "fetchRows w sheetId gid = Inl e"
  then show "fst (getGoogleSheetData w st sheetId gid) =
      Inr (case cache st (cacheKey sheetId gid) of Some entry \<Rightarrow> data entry | None \<Rightarrow> [])"
    by (simp add: getGoogleSheetData_failure)
next
  assume "fetch_text w (sheetUrl sheetId gid) = Inl e"
  then show "fetchRows w sheetId gid = Inl e" by (rule fetchRows_network)
next
  assume "fetch_text w (sheetUrl sheetId gid) = Inr body \<and> JSON_parse w (stripFraming body) = None"
  then show "fetchRows w sheetId gid = Inl SyntaxError" by (simp add: fetchRows_framing)
qed

theorem getGoogleSheetData_fail_soft_witness:
  "fetchRows (sheet_world ''<html>Service unavailable</html>'' None) ''sheet'' ''0'' = Inl SyntaxError \<and>
   fst (getGoogleSheetData (sheet_world ''<html>Service unavailable</html>'' None) cached_state ''sheet'' ''0'')
     = Inr [[(''evento'', Str ''old'')]] \<and>
   fst (getGoogleSheetData (sheet_world ''<html>Service unavailable</html>'' None) (initialState 0) ''sheet'' ''0'')
     = Inr [] \<and>
   fst (getGoogleSheetData offline_world cached_state ''sheet'' ''0'') = Inr [[(''evento'', Str ''old'')]] \<and>
   stripFraming (''/*O_o*/'' @ [CHR 0x0A] @ ''google.visualization.Query.setResponse('' @
                 ''{}'' @ '');'') = ''{}''"
proof -
  have sf: "stripFraming (''/*O_o*/'' @ [CHR 0x0A] @ ''google.visualization.Query.setResponse('' @
                 ''{}'' @ '');'') = ''{}''"
    using getGoogleSheetData_fail_soft[of offline_world cached_state "''sheet''" "''0''" NetworkError "[]"
        "''/*O_o*/'' @ [CHR 0x0A] @ ''google.visualization.Query.setResponse(''" "'');''" "''{}''"]
    by simp
  let ?w = "sheet_world ''<html>Service unavailable</html>'' None"
  have f: "fetch_text ?w (sheetUrl ''sheet'' ''0'') = Inr ''<html>Service unavailable</html>'' \<and>
      JSON_parse ?w (stripFraming ''<html>Service unavailable</html>'') = None"
    by (simp add: sheet_world_def)
  have n: "fetch_text offline_world (sheetUrl ''sheet'' ''0'') = Inl NetworkError"
    by (simp add: offline_world_def)
  have 1: "fetchRows ?w ''sheet'' ''0'' = Inl SyntaxError"
    using getGoogleSheetData_fail_soft[of ?w cached_state "''sheet''" "''0''" SyntaxError
        "''<html>Service unavailable</html>''"] f by blast
  have 2: "fetchRows offline_world ''sheet'' ''0'' = Inl NetworkError"
    using getGoogleSheetData_fail_soft[of offline_world cached_state "''sheet''" "''0''" NetworkError "[]"] n
    by blast
  show ?thesis
    using 1 2
      getGoogleSheetData_fail_soft[of ?w cached_state "''sheet''" "''0''" SyntaxError "[]"]
      getGoogleSheetData_fail_soft[of ?w "initialState 0" "''sheet''" "''0''" SyntaxError "[]"]
      getGoogleSheetData_fail_soft[of offline_world cached_state "''sheet''" "''0''" NetworkError "[]"]
      sf
    by (simp add: cached_state_def initialState_def cacheKey_def)
qed

text \<open>
  Claim C9. A call whose fetch, decoding or transformation fails leaves the module state
  as it was: the cache, the version counter and the last-modified stamp. Put the other
  way round, a call that changes the state is one whose rows were fetched, decoded and
  transformed.
\<close>

theorem failure_leaves_state:
  "(fetchRows w sheetId gid = Inl e \<longrightarrow> snd (getGoogleSheetData w st sheetId gid) = st) \<and>
   (snd (getGoogleSheetData w st sheetId gid) \<noteq> st \<longrightarrow> (\<exists>rows. fetchRows w sheetId gid = Inr rows))"
proof (intro conjI impI)
  assume "fetchRows w sheetId gid = Inl e"
  then show "snd (getGoogleSheetData w st sheetId gid) = st"
    by (simp add: getGoogleSheetData_failure)
next
  assume ch: "snd (getGoogleSheetData w st sheetId gid) \<noteq> st"
  show "\<exists>rows. fetchRows w sheetId gid = Inr rows"
  proof (cases "fetchRows w sheetId gid")
    case (Inl e')
    with ch show ?thesis by (simp add: getGoogleSheetData_failure)
  next
    case (Inr rows)
    then show ?thesis by blast
  qed
qed

theorem failure_leaves_state_witness:
  "fetchRows offline_world ''sheet'' ''0'' = Inl NetworkError \<and>
   snd (getGoogleSheetData offline_world cached_state ''sheet'' ''0'') = cached_state \<and>
   cache (snd (getGoogleSheetData offline_world cached_state ''sheet'' ''0'')) ''sheet-0''
     = Some \<lparr> data = [[(''evento'', Str ''old'')]], timestamp = 5, version = 3 \<rparr> \<and>
   currentVersion (snd (getGoogleSheetData offline_world cached_state ''sheet'' ''0'')) = 3 \<and>
   lastModified (snd (getGoogleSheetData offline_world cached_state ''sheet'' ''0'')) = 5"
proof -
  have 1: "fetchRows offline_world ''sheet'' ''0'' = Inl NetworkError"
    by (simp add: fetchRows_def bind_err_def offline_world_def)
  with failure_leaves_state[of offline_world "''sheet''" "''0''" NetworkError cached_state]
  have "snd (getGoogleSheetData offline_world cached_state ''sheet'' ''0'') = cached_state" by blast
  with 1 show ?thesis by (simp add: cached_state_def)
qed

lemma match_file_id_skip:
  "\<forall>k<length pre. token_at (drop k (pre @ s)) = None \<Longrightarrow>
   match_file_id (pre @ s) = match_file_id s"
proof (induction pre)
  case Nil
  show ?case by simp
next
  case (Cons p ps)
  from Cons.prems have h0: "token_at (p # ps @ s) = None"
    by (metis append_Cons drop0 length_greater_0_conv list.discI)
  have "\<forall>k<length ps. token_at (drop k (ps @ s)) = None"
  proof (intro allI impI)
    fix k assume "k < length ps"
    then have "Suc k < length (p # ps)" by simp
    with Cons.prems have "token_at (drop (Suc k) ((p # ps) @ s)) = None" by blast
    then show "token_at (drop k (ps @ s)) = None" by simp
  qed
  with Cons.IH have "match_file_id (ps @ s) = match_file_id s" .
  with h0 show ?case by simp
qed

lemma takeWhile_run:
  "list_all class_char tok \<Longrightarrow> (rest = [] \<or> \<not> class_char (hd rest)) \<Longrightarrow>
   takeWhile class_char (tok @ rest) = tok"
  by (cases rest) (auto simp: list_all_iff takeWhile_append2 intro: takeWhile_eq_all_conv[THEN iffD2])


lemma token_at_iff:
  "k < length s \<Longrightarrow>
   (token_at (drop k s) = None) =
   (\<not> ((s ! k = CHR ''/'' \<or> s ! k = CHR ''='') \<and>
       25 \<le> length (takeWhile class_char (drop (Suc k) s))))"
  by (simp add: token_at_def Cons_nth_drop_Suc[symmetric])

text \<open>
  Claim C8. The image of an event page: a reference that starts with the drive prefix and
  whose first separator (slash or equals sign) followed by at least 25 characters of the
  class is followed by the run \<open>tok\<close> becomes the content-delivery address of
  \<open>tok\<close>; any other reference that starts with \<^verbatim>\<open>http\<close> is kept as it is; any other
  non-empty reference is a file of the images directory, \<^verbatim>\<open>poster.jpg\<close> becoming
  \<^verbatim>\<open>/images/poster.jpg\<close>; and a missing or empty reference gives the fallback image.
\<close>

theorem imageUrl_cases:
  "(prefix ''https://drive.google.com'' s \<and> s = pre @ c # tok @ rest \<and>
    (c = CHR ''/'' \<or> c = CHR ''='') \<and> 25 \<le> length tok \<and> list_all class_char tok \<and>
    (rest = [] \<or> \<not> class_char (hd rest)) \<and>
    (\<forall>k<length pre. \<not> ((s ! k = CHR ''/'' \<or> s ! k = CHR ''='') \<and>
                         25 \<le> length (takeWhile class_char (drop (Suc k) s))))
    \<longrightarrow> imageUrl (Str s) = Inr (''https://lh3.googleusercontent.com/d/'' @ tok @ ''=w1000'')) \<and>
   (prefix ''http'' s \<and> \<not> prefix ''https://drive.google.com'' s
    \<longrightarrow> imageUrl (Str s) = Inr s) \<and>
   (s \<noteq> [] \<and> \<not> prefix ''http'' s \<longrightarrow> imageUrl (Str s) = Inr (''/images/'' @ s)) \<and>
   imageUrl (Str ''poster.jpg'') = Inr ''/images/poster.jpg'' \<and>
   (\<not> truthy v \<longrightarrow> imageUrl v = Inr ''/images/astro-post.jpg'')"
proof (intro conjI impI)
  assume a: "prefix ''https://drive.google.com'' s \<and> s = pre @ c # tok @ rest \<and>
    (c = CHR ''/'' \<or> c = CHR ''='') \<and> 25 \<le> length tok \<and> list_all class_char tok \<and>
    (rest = [] \<or> \<not> class_char (hd rest)) \<and>
    (\<forall>k<length pre. \<not> ((s ! k = CHR ''/'' \<or> s ! k = CHR ''='') \<and>
                         25 \<le> length (takeWhile class_char (drop (Suc k) s))))"
  then have s: "s = pre @ (c # tok @ rest)" by simp
  have run: "takeWhile class_char (tok @ rest) = tok"
    using a by (intro takeWhile_run) simp_all
  have "\<forall>k<length pre. token_at (drop k (pre @ (c # tok @ rest))) = None"
  proof (intro allI impI)
    fix k assume k: "k < length pre"
    then have "k < length s" using s by simp
    from token_at_iff[OF this] a k show "token_at (drop k (pre @ (c # tok @ rest))) = None"
      using s by blast
  qed
  then have "match_file_id s = match_file_id (c # tok @ rest)"
    unfolding s by (rule match_file_id_skip)
  also have "\<dots> = Some tok"
    using a run by (simp add: token_at_def)
  finally have "match_file_id s = Some tok" .
  moreover have "truthy (Str s)" using s by simp
  moreover from a have "prefix ''https://drive.google.com'' s" by blast
  ultimately show "imageUrl (Str s) = Inr (''https://lh3.googleusercontent.com/d/'' @ tok @ ''=w1000'')"
    by (simp add: imageUrl_def)
next
  assume "prefix ''http'' s \<and> \<not> prefix ''https://drive.google.com'' s"
  moreover from this have "s \<noteq> []" by auto
  ultimately show "imageUrl (Str s) = Inr s" by (simp add: imageUrl_def)
next
  assume a: "s \<noteq> [] \<and> \<not> prefix ''http'' s"
  have "prefix ''http'' ''https://drive.google.com''" by simp
  with a have "\<not> prefix ''https://drive.google.com'' s"
    using prefix_order.trans by blast
  with a show "imageUrl (Str s) = Inr (''/images/'' @ s)" by (simp add: imageUrl_def)
next
  show "imageUrl (Str ''poster.jpg'') = Inr ''/images/poster.jpg''"
    by (simp add: imageUrl_def)
next
  assume "\<not> truthy v"
  then show "imageUrl v = Inr ''/images/astro-post.jpg''" by (simp add: imageUrl_def)
qed

theorem imageUrl_cases_witness:
  "imageUrl (Str ''https://drive.google.com/file/d/1A2b3C4d5E6f7G8h9I0jK1l2M3n4O5p6Q/view'')
     = Inr ''https://lh3.googleusercontent.com/d/1A2b3C4d5E6f7G8h9I0jK1l2M3n4O5p6Q=w1000'' \<and>
   imageUrl (Str ''https://example.org/a.png'') = Inr ''https://example.org/a.png'' \<and>
   imageUrl (Str ''poster.jpg'') = Inr ''/images/poster.jpg'' \<and>
   imageUrl Null = Inr ''/images/astro-post.jpg''"
proof -
  let ?s = "''https://drive.google.com/file/d/1A2b3C4d5E6f7G8h9I0jK1l2M3n4O5p6Q/view''"
  have first: "\<forall>k<length ''https://drive.google.com/file/d''.
      \<not> ((?s ! k = CHR ''/'' \<or> ?s ! k = CHR ''='') \<and>
         25 \<le> length (takeWhile class_char (drop (Suc k) ?s)))"
    by (simp add: All_less_Suc class_char_def)
  have tok: "list_all class_char ''1A2b3C4d5E6f7G8h9I0jK1l2M3n4O5p6Q''"
    by (simp add: class_char_def)
  have nxt: "\<not> class_char (hd ''/view'')" by (simp add: class_char_def)
  have 1: "imageUrl (Str ?s)
     = Inr ''https://lh3.googleusercontent.com/d/1A2b3C4d5E6f7G8h9I0jK1l2M3n4O5p6Q=w1000''"
    using imageUrl_cases[of ?s "''https://drive.google.com/file/d''" "CHR ''/''"
        "''1A2b3C4d5E6f7G8h9I0jK1l2M3n4O5p6Q''" "''/view''" Null] first tok nxt
    by simp
  have 2: "imageUrl (Str ''https://example.org/a.png'') = Inr ''https://example.org/a.png''"
    using imageUrl_cases[of "''https://example.org/a.png''" "[]" "CHR ''a''" "[]" "[]" Null]
    by simp
  have 3: "imageUrl (Str ''poster.jpg'') = Inr ''/images/poster.jpg'' \<and>
      imageUrl Null = Inr ''/images/astro-post.jpg''"
    using imageUrl_cases[of "''poster.jpg''" "[]" "CHR ''a''" "[]" "[]" Null]
    by simp
  from 1 2 3 show ?thesis by simp
qed

lemma strict_eq_Str: "strict_eq v (Str s) = (v = Str s)"
  by (cases v) auto

lemma sameEvent_iff:
  "sameEvent e x =
     (obj_get x ''evento'' = Str (eventName e) \<and>
      obj_get x key_horario_de_inicio = Str (startDate e))"
  by (simp add: sameEvent_def strict_eq_Str)

lemma isNew_iff:
  "isNew ex e =
     (\<not> (\<exists>x \<in> set ex. obj_get x ''evento'' = Str (eventName e) \<and>
                       obj_get x key_horario_de_inicio = Str (startDate e)))"
  by (simp add: isNew_def list_ex_iff sameEvent_iff)

text \<open>
  Claim C4. Each scraped event contributes to the delta of \<^verbatim>\<open>filterNewEvents\<close> either
  nothing or its own row, and it contributes nothing exactly when some canonical record
  has an \<^verbatim>\<open>evento\<close> property that is the string of the event's name and a start-time
  property that is the string of the event's start date: both fields must agree, and a
  record whose start time is stored in any other representation (a Date object, or no
  such property) never excludes anything.
\<close>

theorem filterNewEvents_dedup_key:
  "filterNewEvents newEvents existingData =
     concat (map (\<lambda>e.
        if (\<exists>x \<in> set existingData.
              obj_get x ''evento'' = Str (eventName e) \<and>
              obj_get x key_horario_de_inicio = Str (startDate e))
        then [] else [toSheetRow e]) newEvents)"
proof (induction newEvents)
  case Nil
  show ?case by (simp add: filterNewEvents_def)
next
  case (Cons e es)
  then show ?case
    by (cases "isNew existingData e") (simp_all add: filterNewEvents_def isNew_iff)
qed

lemma js_add1_ge: "n \<le> js_add1 n"
  by (simp add: js_add1_def)

lemma versions_bounded_initial: "versions_bounded (initialState t0)"
  by (simp add: versions_bounded_def initialState_def)

lemma versions_bounded_fetch:
  assumes "versions_bounded st"
  shows "versions_bounded (snd (getGoogleSheetData w st sheetId gid))"
proof (cases "fetchRows w sheetId gid")
  case (Inl e)
  with assms show ?thesis by (simp add: getGoogleSheetData_failure)
next
  case (Inr rows)
  have "version entry \<le> js_add1 (currentVersion st)" if "cache st k = Some entry" for k entry
    using assms that js_add1_ge[of "currentVersion st"] by (fastforce simp: versions_bounded_def)
  then show ?thesis
    using Inr by (simp add: getGoogleSheetData_success versions_bounded_def)
qed

lemma versions_bounded_delete:
  "versions_bounded st \<Longrightarrow> versions_bounded (st\<lparr> cache := (cache st)(k := None) \<rparr>)"
  by (simp add: versions_bounded_def)

lemma reachable_versions_bounded: "reachable st \<Longrightarrow> versions_bounded st"
proof (induction rule: reachable.induct)
  case (loaded t0)
  show ?case by (rule versions_bounded_initial)
next
  case (fetched st w sheetId gid)
  then show ?case by (simp add: versions_bounded_fetch)
next
  case (webhook st w sheetId gid)
  then show ?case
    unfolding handleWebhookUpdate_def
    by (intro versions_bounded_fetch versions_bounded_delete)
qed

lemma currentVersion_mono:
  "currentVersion st \<le> currentVersion (snd (getGoogleSheetData w st sheetId gid))"
  by (cases "fetchRows w sheetId gid")
     (simp_all add: getGoogleSheetData_failure getGoogleSheetData_success js_add1_ge)

text \<open>
  Claim C6. In a state the module can reach, with the counter below \<open>2^53\<close>, a
  successful refresh returns the rows, stores them under the key with the stamp of the
  clock and the version one above the counter, which is above the version of every
  entry the cache held; a later call for the key that fails answers with exactly those
  rows. The counter becomes that version, and no call ever lowers it.
\<close>

theorem refresh_stores_newer_version:
  assumes "reachable st" and "currentVersion st < 2 ^ 53"
    and "fetchRows w sheetId gid = Inr rows"
  shows "fst (getGoogleSheetData w st sheetId gid) = Inr rows \<and>
    cache (snd (getGoogleSheetData w st sheetId gid)) (cacheKey sheetId gid) =
      Some \<lparr> data = rows, timestamp = Date_now w, version = currentVersion st + 1 \<rparr> \<and>
    (\<forall>k old. cache st k = Some old \<longrightarrow> version old < currentVersion st + 1) \<and>
    currentVersion (snd (getGoogleSheetData w st sheetId gid)) = currentVersion st + 1 \<and>
    (fetchRows w2 sheetId gid = Inl e \<longrightarrow>
       fst (getGoogleSheetData w2 (snd (getGoogleSheetData w st sheetId gid)) sheetId gid) = Inr rows) \<and>
    currentVersion st \<le> currentVersion (snd (getGoogleSheetData w3 st sheetId3 gid3)) \<and>
    currentVersion st \<le> currentVersion (snd (handleWebhookUpdate w3 st sheetId3 gid3))"
proof -
  have inc: "js_add1 (currentVersion st) = currentVersion st + 1"
    using assms(2) by (simp add: js_add1_def)
  have old: "\<forall>k old. cache st k = Some old \<longrightarrow> version old < currentVersion st + 1"
    using reachable_versions_bounded[OF assms(1)] by (fastforce simp: versions_bounded_def)
  have get: "fst (getGoogleSheetData w2 (snd (getGoogleSheetData w st sheetId gid)) sheetId gid) = Inr rows"
    if "fetchRows w2 sheetId gid = Inl e"
    using that assms(3) by (simp add: getGoogleSheetData_failure getGoogleSheetData_success)
  have wh: "currentVersion st \<le> currentVersion (snd (handleWebhookUpdate w3 st sheetId3 gid3))"
    unfolding handleWebhookUpdate_def
    using currentVersion_mono[of "st\<lparr> cache := (cache st)(cacheKey sheetId3 gid3 := None) \<rparr>" w3 sheetId3 gid3]
    by simp
  show ?thesis
    using assms(3) inc old get wh currentVersion_mono[of st w3 sheetId3 gid3]
    by (simp add: getGoogleSheetData_success)
qed

lemma fetch_one_row:
  "fetchRows (sheet_world ''x'' (Some one_row_table)) ''sheet'' ''0'' =
     Inr [[(''evento'', Str ''A''), (''date'', Null), (''time'', Null), (''local'', Null),
           (''tipo_evento'', Null), (''url'', Null), (''flyer'', Null)]]"
  by (simp add: sheet_eval row_eval)

theorem refresh_stores_newer_version_witness:
  "cache (snd (getGoogleSheetData (sheet_world ''x'' (Some one_row_table)) (initialState 0) ''sheet'' ''0''))
       ''sheet-0'' =
     Some \<lparr> data = [[(''evento'', Str ''A''), (''date'', Null), (''time'', Null), (''local'', Null),
                      (''tipo_evento'', Null), (''url'', Null), (''flyer'', Null)]],
            timestamp = 7, version = 1 \<rparr> \<and>
   cache (snd (getGoogleSheetData (sheet_world ''x'' (Some one_row_table))
            (snd (getGoogleSheetData (sheet_world ''x'' (Some one_row_table)) (initialState 0) ''sheet'' ''0''))
            ''sheet'' ''0''))
       ''sheet-0'' =
     Some \<lparr> data = [[(''evento'', Str ''A''), (''date'', Null), (''time'', Null), (''local'', Null),
                      (''tipo_evento'', Null), (''url'', Null), (''flyer'', Null)]],
            timestamp = 7, version = 2 \<rparr> \<and>
   fst (getGoogleSheetData offline_world
          (snd (getGoogleSheetData (sheet_world ''x'' (Some one_row_table)) (initialState 0) ''sheet'' ''0''))
          ''sheet'' ''0'') =
     Inr [[(''evento'', Str ''A''), (''date'', Null), (''time'', Null), (''local'', Null),
           (''tipo_evento'', Null), (''url'', Null), (''flyer'', Null)]]"
proof -
  let ?w = "sheet_world ''x'' (Some one_row_table)"
  define st1 where "st1 = snd (getGoogleSheetData ?w (initialState 0) ''sheet'' ''0'')"
  have r0: "reachable (initialState 0)" by (rule reachable.loaded)
  have v0: "currentVersion (initialState 0) < 2 ^ 53" by (simp add: initialState_def)
  have off: "fetchRows offline_world ''sheet'' ''0'' = Inl NetworkError"
    by (simp add: fetchRows_def bind_err_def offline_world_def)
  note t1 = refresh_stores_newer_version[OF r0 v0 fetch_one_row,
      of offline_world NetworkError offline_world "[]" "[]", folded st1_def]
  have r1: "reachable st1" unfolding st1_def by (rule reachable.fetched[OF r0])
  have v1: "currentVersion st1 < 2 ^ 53" using t1 by (simp add: initialState_def)
  note t2 = refresh_stores_newer_version[OF r1 v1 fetch_one_row,
      of offline_world NetworkError offline_world "[]" "[]"]
  have now: "Date_now ?w = 7" by (simp add: sheet_world_def offline_world_def)
  show ?thesis
    using t1 t2 off now unfolding st1_def
    by (simp add: cacheKey_def initialState_def)
qed










lemma scrape_show_x:
  "scrapeEvents (page_world [show_x_element ''2024-01-01 20:00'']) =
     Inr [\<lparr> eventName = ''Show X'', tags = [], startDate = ''2024-01-01T20:00:00.000Z'',
            endDate = ''2024-01-01T20:00:00.000Z'', location = ''El Cabong'',
            description = ''Ao vivo'', image' = ''/images/astro-post.jpg'',
            registrationLink = None \<rparr>]"
  by (simp add: scrapeEvents_def bind_err_def scrapeElement_def show_x_element_def page_world_def
      offline_world_def js_trim_def is_space_def)

lemmas cell_eval = decodeStringCell_def stage_formatted_def stage_wrapped_def stage_iso_def
  stage_time_def wrapped_date_at_def digits_then_def match_time_def parseInt_digits_def
  num_at_def iso_world_def offline_world_def







lemma stage_wrapped_example:
  "stage_wrapped ''Date(2024,11,25,20,0,0)'' = Some (DateV (Some 1735156800000))"
  by (simp add: cell_eval num_eval date_eval)




lemma transformRow_cells:
  assumes "parseDate (js_or (get_opt c1 ''v'') (Str [])) = Inr date"
    and "parseTime w (js_or (get_opt c2 ''v'') (Str [])) = Inr time"
  shows "transformRow w (Obj [(''c'', Arr (c0 # c1 # c2 # rest))]) =
     Inr [(''evento'', js_or (get_opt c0 ''v'') Null),
          (''date'', date),
          (''time'', time),
          (''local'', js_or (get_opt (if 0 < length rest then rest ! 0 else Undefined) ''v'') Null),
          (''tipo_evento'', js_or (get_opt (if 1 < length rest then rest ! 1 else Undefined) ''v'') Null),
          (''url'', js_or (get_opt (if 2 < length rest then rest ! 2 else Undefined) ''v'') Null),
          (''flyer'', js_or (get_opt (if 3 < length rest then rest ! 3 else Undefined) ''v'') Null)]"
  using assms
  by (simp add: transformRow_def bind_err_def get_prop_def obj_get_def cell_v_def get_index_def)

text \<open>
  Claim C2, as amended. For a row whose date cell holds \<^verbatim>\<open>DD/MM/YYYY\<close> with a valid day
  and month and a year from 0100 on, and whose time cell holds \<^verbatim>\<open>HH:MM\<close>, the record's
  date is the UTC midnight of that day: its time value lies in the year \<open>y\<close>, in the
  month \<open>m\<close>, on the day \<open>d\<close>, at 0 ms of the day. The hour and the minute are not in
  the timestamp; they are the record's time, the string \<^verbatim>\<open>HH:MM\<close> itself.
\<close>

theorem primary_row_date_and_time:
  fixes d m y h mi :: nat
  assumes "1 \<le> m" and "m \<le> 12" and "1 \<le> d" and "int d \<le> DaysInMonth (int y) (int m)"
    and "100 \<le> y" and "y \<le> 9999" and "h \<le> 23" and "mi \<le> 59"
  defines "dateStr \<equiv> two_digits d @ ''/'' @ two_digits m @ ''/'' @ four_digits y"
    and "timeStr \<equiv> two_digits h @ '':'' @ two_digits mi"
    and "t \<equiv> msPerDay * (DayFromYear (int y) + MonthStart (int m - 1) (InLeapYear (int y)) + int d - 1)"
  shows "\<exists>obj. transformRow w (Obj [(''c'', Arr (c0 # cell (Str dateStr) # cell (Str timeStr) # rest))])
            = Inr obj \<and>
          obj_get obj ''date'' = DateV (Some t) \<and>
          obj_get obj ''time'' = Str timeStr \<and>
          TimeFromYear (int y) \<le> t \<and> t < TimeFromYear (int y + 1) \<and>
          MonthStart (int m - 1) (InLeapYear (int y)) \<le> t div msPerDay - DayFromYear (int y) \<and>
          t div msPerDay - DayFromYear (int y) < MonthStart (int m) (InLeapYear (int y)) \<and>
          t div msPerDay - DayFromYear (int y) - MonthStart (int m - 1) (InLeapYear (int y)) + 1 = int d \<and>
          t mod msPerDay = 0"
proof -
  note pd = parseDate_valid[OF assms(1-6), folded dateStr_def t_def]
  have pt: "parseTime w (Str timeStr) = Inr (Str timeStr)"
    unfolding timeStr_def using assms(7,8) by (intro parseTime_valid) simp_all
  have ne: "dateStr \<noteq> []" "timeStr \<noteq> []" by (simp_all add: dateStr_def timeStr_def)
  have d1: "parseDate (js_or (get_opt (cell (Str dateStr)) ''v'') (Str [])) = Inr (DateV (Some t))"
    using pd(1) ne by (simp add: cell_def get_opt_def obj_get_def js_or_def)
  have t1: "parseTime w (js_or (get_opt (cell (Str timeStr)) ''v'') (Str [])) = Inr (Str timeStr)"
    using pt ne by (simp add: cell_def get_opt_def obj_get_def js_or_def)
  show ?thesis
    using transformRow_cells[OF d1 t1, of c0 rest] pd(2-7)
    by (simp add: obj_get_def)
qed

theorem primary_row_date_and_time_witness:
  "\<exists>obj. transformRow offline_world (fixture_row ''A'' (Str ''25/12/2024'') ''20:00'') = Inr obj \<and>
     obj_get obj ''date'' = DateV (Some 1735084800000) \<and>
     obj_get obj ''time'' = Str ''20:00'' \<and>
     TimeFromYear 2024 \<le> 1735084800000 \<and> 1735084800000 < TimeFromYear (2024 + 1) \<and>
     (1735084800000::int) mod msPerDay = 0"
proof -
  have dm: "int 25 \<le> DaysInMonth (int 2024) (int 12)"
    by (simp add: DaysInMonth_def MonthStart_def InLeapYear_def)
  have s: "two_digits 25 @ ''/'' @ two_digits 12 @ ''/'' @ four_digits 2024 = ''25/12/2024''"
    "two_digits 20 @ '':'' @ two_digits 0 = ''20:00''"
    by (simp_all add: two_digits_def four_digits_def decimal_digit_def)
  have t: "msPerDay * (DayFromYear (int 2024) + MonthStart (int 12 - 1) (InLeapYear (int 2024)) + int 25 - 1)
      = 1735084800000"
    by (simp add: date_eval)
  have r: "fixture_row ''A'' (Str ''25/12/2024'') ''20:00'' =
      Obj [(''c'', Arr (cell (Str ''A'') # cell (Str ''25/12/2024'') # cell (Str ''20:00'') #
                        [cell (Str ''Teatro''), cell (Str ''show''), Null, cell (Str ''poster.jpg'')]))]"
    by (simp add: fixture_row_def)
  have le: "(1::nat) \<le> 12" "(12::nat) \<le> 12" "(1::nat) \<le> 25" "(100::nat) \<le> 2024"
    "(2024::nat) \<le> 9999" "(20::nat) \<le> 23" "(0::nat) \<le> 59"
    by simp_all
  note th = primary_row_date_and_time[of 12 25 2024 20 0 offline_world "cell (Str ''A'')"
      "[cell (Str ''Teatro''), cell (Str ''show''), Null, cell (Str ''poster.jpg'')]",
      OF le(1,2,3) dm le(4,5,6,7), unfolded s t]
  have y: "int 2024 = 2024" by simp
  from th show ?thesis
    unfolding r y by (elim exE conjE, intro exI conjI) assumption+
qed

text \<open>
  The claim as stated fails on its own example: for 25/12/2024 and 20:00 the record's
  date is the instant 2024-12-25T00:00:00Z, not 2024-12-25T20:00:00Z.
\<close>

theorem primary_row_timestamp_counterexample:
  "transformRow offline_world (fixture_row ''A'' (Str ''25/12/2024'') ''20:00'') =
     Inr [(''evento'', Str ''A''), (''date'', DateV (Some 1735084800000)), (''time'', Str ''20:00''),
          (''local'', Str ''Teatro''), (''tipo_evento'', Str ''show''), (''url'', Null),
          (''flyer'', Str ''poster.jpg'')] \<and>
   Date_UTC [Fin 2024, Fin 11, Fin 25, Fin 0, Fin 0, Fin 0] = Some 1735084800000 \<and>
   Date_UTC [Fin 2024, Fin 11, Fin 25, Fin 20, Fin 0, Fin 0] = Some 1735156800000"
  by (simp add: row_eval num_eval date_eval)

lemma fetch_fixture_numeric:
  "fetchRows (sheet_world ''x'' (Some (fixture_table (Num (Fin 45651))))) ''sheet'' ''0'' = Inl TypeError"
  by (simp add: sheet_eval row_eval num_eval date_eval)

lemma fetch_fixture_malformed:
  "fetchRows (sheet_world ''x'' (Some (fixture_table (Str ''xx/01/2025'')))) ''sheet'' ''0'' =
     Inr [[(''evento'', Str ''A''), (''date'', DateV (Some 1735084800000)), (''time'', Str ''20:00''),
           (''local'', Str ''Teatro''), (''tipo_evento'', Str ''show''), (''url'', Null),
           (''flyer'', Str ''poster.jpg'')],
          [(''evento'', Str ''B''), (''date'', Null), (''time'', Str ''21:30''),
           (''local'', Str ''Teatro''), (''tipo_evento'', Str ''show''), (''url'', Null),
           (''flyer'', Str ''poster.jpg'')],
          [(''evento'', Str ''C''), (''date'', DateV (Some 1738368000000)), (''time'', Str ''19:00''),
           (''local'', Str ''Teatro''), (''tipo_evento'', Str ''show''), (''url'', Null),
           (''flyer'', Str ''poster.jpg'')]]"
  by (simp add: sheet_eval row_eval num_eval date_eval)

lemma parseDate_empty_component:
  "parseDate (Str ''25//2024'') = Inr (DateV (Some 1703462400000))"
  by (simp add: parseDate_def num_at_def num_eval date_eval)

text \<open>
  Claim C7. A table of three rows whose second row has a number in the date cell yields
  no record at all: \<^verbatim>\<open>split\<close> is no function of a number, the TypeError leaves
  \<^verbatim>\<open>rows.map\<close>, and the call answers with the cache, here empty. A date string with an
  empty component (\<^verbatim>\<open>25//2024\<close>) gives a date, not null. The same table with a malformed
  date string in the second row yields three records, the second with a null date.
\<close>

theorem non_string_date_cell_aborts_table:
  "fetchRows (sheet_world ''x'' (Some (fixture_table (Num (Fin 45651))))) ''sheet'' ''0'' = Inl TypeError \<and>
   fst (getGoogleSheetData (sheet_world ''x'' (Some (fixture_table (Num (Fin 45651)))))
          (initialState 0) ''sheet'' ''0'') = Inr [] \<and>
   parseDate (Str ''25//2024'') = Inr (DateV (Some 1703462400000)) \<and>
   map (\<lambda>r. obj_get r ''date'')
     (projr (fetchRows (sheet_world ''x'' (Some (fixture_table (Str ''xx/01/2025'')))) ''sheet'' ''0'')) =
     [DateV (Some 1735084800000), Null, DateV (Some 1738368000000)]"
  using fetch_fixture_numeric fetch_fixture_malformed parseDate_empty_component
  by (simp add: getGoogleSheetData_failure initialState_def obj_get_def)

lemma js_join_Cons: "js_join sep (x # xs) = x @ concat (map (\<lambda>y. sep @ y) xs)"
  by (induction sep "x # xs" arbitrary: x xs rule: js_join.induct) simp_all

lemma toSheetRow_fields:
  "toSheetRow e =
     \<lparr> evento = eventName e,
       tipo_de_evento = (case tags e of [] \<Rightarrow> [] | t # ts \<Rightarrow> t @ concat (map (\<lambda>u. '', '' @ u) ts)),
       horario_de_inicio = startDate e,
       horario_de_termino = endDate e,
       local_f = location e,
       descricao = description e,
       flyer = image' e,
       link_de_inscricao = (case registrationLink e of None \<Rightarrow> [] | Some l \<Rightarrow> l) \<rparr>"
proof -
  have j: "js_join '', '' (tags e) =
      (case tags e of [] \<Rightarrow> [] | t # ts \<Rightarrow> t @ concat (map (\<lambda>u. '', '' @ u) ts))"
    by (cases "tags e") (simp_all only: js_join.simps(1) js_join_Cons list.case)
  have l: "(case registrationLink e of None \<Rightarrow> [] | Some l \<Rightarrow> (if l \<noteq> [] then l else [])) =
      (case registrationLink e of None \<Rightarrow> [] | Some l \<Rightarrow> l)"
    by (cases "registrationLink e") auto
  show ?thesis unfolding toSheetRow_def j l ..
qed

lemma filterNewEvents_on_fresh:
  "filterNewEvents_on (st @ [EventArray evs, RecordArray recs]) (length st) (Suc (length st)) =
     Inr (length st + 3,
          st @ [EventArray evs, RecordArray recs, EventArray (filter (isNew recs) evs),
                RowArray (filterNewEvents evs recs)])"
  by (simp add: filterNewEvents_on_def new_array_def filterNewEvents_def nth_append)

text \<open>
  Claim C10. The delta of \<^verbatim>\<open>filterNewEvents\<close> is the scraped list with the duplicates
  left out, in scrape order, each kept event mapped to a row of the sheet schema: the
  name, the tags joined by comma and space, the start and end dates, the location, the
  description, the image, and the registration link, which is the empty string when the
  event has none. The kept events are a subsequence of the scraped list. On the store of
  arrays the call only adds two arrays (the kept events and the rows): every array that
  existed before the call, the scraped list and the canonical list among them, is what
  it was.
\<close>

theorem filterNewEvents_order_preserving:
  "filterNewEvents newEvents existingData =
     map (\<lambda>e. \<lparr> evento = eventName e,
                 tipo_de_evento =
                   (case tags e of [] \<Rightarrow> [] | t # ts \<Rightarrow> t @ concat (map (\<lambda>u. '', '' @ u) ts)),
                 horario_de_inicio = startDate e,
                 horario_de_termino = endDate e,
                 local_f = location e,
                 descricao = description e,
                 flyer = image' e,
                 link_de_inscricao = (case registrationLink e of None \<Rightarrow> [] | Some l \<Rightarrow> l) \<rparr>)
       (filter (\<lambda>e. \<not> (\<exists>x \<in> set existingData.
                        obj_get x ''evento'' = Str (eventName e) \<and>
                        obj_get x key_horario_de_inicio = Str (startDate e)))
          newEvents) \<and>
   subseq
     (filter (\<lambda>e. \<not> (\<exists>x \<in> set existingData.
                        obj_get x ''evento'' = Str (eventName e) \<and>
                        obj_get x key_horario_de_inicio = Str (startDate e)))
        newEvents)
     newEvents \<and>
   filterNewEvents_on (st @ [EventArray newEvents, RecordArray existingData])
       (length st) (Suc (length st)) =
     Inr (length st + 3,
          st @ [EventArray newEvents, RecordArray existingData,
                EventArray
                  (filter (\<lambda>e. \<not> (\<exists>x \<in> set existingData.
                        obj_get x ''evento'' = Str (eventName e) \<and>
                        obj_get x key_horario_de_inicio = Str (startDate e)))
                     newEvents),
                RowArray (filterNewEvents newEvents existingData)])"
proof -
  have p: "isNew existingData =
      (\<lambda>e. \<not> (\<exists>x \<in> set existingData.
                 obj_get x ''evento'' = Str (eventName e) \<and>
                 obj_get x key_horario_de_inicio = Str (startDate e)))"
    by (rule ext) (rule isNew_iff)
  have m: "toSheetRow =
      (\<lambda>e. \<lparr> evento = eventName e,
              tipo_de_evento =
                (case tags e of [] \<Rightarrow> [] | t # ts \<Rightarrow> t @ concat (map (\<lambda>u. '', '' @ u) ts)),
              horario_de_inicio = startDate e,
              horario_de_termino = endDate e,
              local_f = location e,
              descricao = description e,
              flyer = image' e,
              link_de_inscricao = (case registrationLink e of None \<Rightarrow> [] | Some l \<Rightarrow> l) \<rparr>)"
    by (rule ext) (rule toSheetRow_fields)
  have 1: "filterNewEvents newEvents existingData = map toSheetRow (filter (isNew existingData) newEvents)"
    by (simp add: filterNewEvents_def)
  have 2: "subseq (filter (isNew existingData) newEvents) newEvents"
    by (rule subseq_filter_left)
  note 3 = filterNewEvents_on_fresh[of st newEvents existingData]
  from 1 2 3 show ?thesis unfolding p m by blast
qed

theorem filterNewEvents_order_preserving_witness:
  "filterNewEvents
     [show_x, show_x\<lparr> eventName := ''Show Y'' \<rparr>, show_x\<lparr> eventName := ''Show Z'', tags := [] \<rparr>]
     [[(''evento'', Str ''Show Y''), (key_horario_de_inicio, Str ''2024-01-01T20:00:00.000Z'')],
      [(''evento'', Str ''Show Z''), (key_horario_de_inicio, DateV (Some 1704139200000))]] =
     [\<lparr> evento = ''Show X'', tipo_de_evento = ''musica, ao vivo'',
        horario_de_inicio = ''2024-01-01T20:00:00.000Z'',
        horario_de_termino = ''2024-01-01T20:00:00.000Z'',
        local_f = ''El Cabong'', descricao = ''Ao vivo'', flyer = ''/images/astro-post.jpg'',
        link_de_inscricao = [] \<rparr>,
      \<lparr> evento = ''Show Z'', tipo_de_evento = [],
        horario_de_inicio = ''2024-01-01T20:00:00.000Z'',
        horario_de_termino = ''2024-01-01T20:00:00.000Z'',
        local_f = ''El Cabong'', descricao = ''Ao vivo'', flyer = ''/images/astro-post.jpg'',
        link_de_inscricao = [] \<rparr>]"
  using filterNewEvents_order_preserving[of
      "[show_x, show_x\<lparr> eventName := ''Show Y'' \<rparr>, show_x\<lparr> eventName := ''Show Z'', tags := [] \<rparr>]"
      "[[(''evento'', Str ''Show Y''), (key_horario_de_inicio, Str ''2024-01-01T20:00:00.000Z'')],
        [(''evento'', Str ''Show Z''), (key_horario_de_inicio, DateV (Some 1704139200000))]]" "[]"]
  by (simp add: show_x_def obj_get_def key_horario_de_inicio_def)

end
